theory Spec2Isabelle
  imports Complex_Main "HOL-Library.AList"
begin

section \<open>Strings and paths\<close>

text \<open>
  Python strings are modelled as \<open>string\<close> (lists of 8-bit characters); the paths and
  identifiers the pipeline handles are taken to be ASCII. \<open>lower\<close> and \<open>upper\<close>
  are \<^verbatim>\<open>str.lower\<close> and \<^verbatim>\<open>str.upper\<close> on ASCII letters, \<open>str_contains s p\<close> is
  Python's \<^verbatim>\<open>p in s\<close> on strings.
\<close>

definition lower_char :: "char \<Rightarrow> char" where
  "lower_char c =
     (let n = (of_char c :: nat) in if 65 \<le> n \<and> n \<le> 90 then char_of (n + 32) else c)"

definition upper_char :: "char \<Rightarrow> char" where
  "upper_char c =
     (let n = (of_char c :: nat) in if 97 \<le> n \<and> n \<le> 122 then char_of (n - 32) else c)"

definition lower :: "string \<Rightarrow> string" where
  "lower s = map lower_char s"

definition upper :: "string \<Rightarrow> string" where
  "upper s = map upper_char s"

fun starts_with :: "string \<Rightarrow> string \<Rightarrow> bool" where
  "starts_with s [] = True"
| "starts_with [] (p # ps) = False"
| "starts_with (c # cs) (p # ps) = (c = p \<and> starts_with cs ps)"

fun str_contains :: "string \<Rightarrow> string \<Rightarrow> bool" where
  "str_contains [] p = (p = [])"
| "str_contains (c # cs) p = (starts_with (c # cs) p \<or> str_contains cs p)"

text \<open>
  \<^verbatim>\<open>str(n)\<close> for an integer, as the f-strings of the edge identifiers use it.
\<close>

fun str_nat :: "nat \<Rightarrow> string" where
  "str_nat n =
     (if n < 10 then [char_of (48 + n)]
      else str_nat (n div 10) @ [char_of (48 + n mod 10)])"

definition str_int :: "int \<Rightarrow> string" where
  "str_int i = (if i < 0 then CHR ''-'' # str_nat (nat (- i)) else str_nat (nat i))"

text \<open>
  \<^verbatim>\<open>pathlib.Path(p).name\<close> and \<^verbatim>\<open>.stem\<close> for POSIX paths: the path is cut at
  \<^verbatim>\<open>/\<close>, empty and \<^verbatim>\<open>.\<close> components are dropped, the name is the last
  component (empty when there is none), and the stem is the name without its last suffix;
  a name whose only dot is its first or its last character has no suffix.
\<close>

fun split_on :: "char \<Rightarrow> string \<Rightarrow> string list" where
  "split_on d [] = [[]]"
| "split_on d (c # cs) =
     (if c = d then [] # split_on d cs
      else (case split_on d cs of [] \<Rightarrow> [[c]] | w # ws \<Rightarrow> (c # w) # ws))"

definition path_components :: "string \<Rightarrow> string list" where
  "path_components p = filter (\<lambda>c. c \<noteq> [] \<and> c \<noteq> ''.'') (split_on CHR ''/'' p)"

definition path_name :: "string \<Rightarrow> string" where
  "path_name p = (case path_components p of [] \<Rightarrow> [] | c # cs \<Rightarrow> last (c # cs))"

text \<open>\<open>rfind c s\<close> is \<^verbatim>\<open>s.rfind(c)\<close>, with \<open>None\<close> for Python's \<open>-1\<close>.\<close>

fun rfind :: "char \<Rightarrow> string \<Rightarrow> nat option" where
  "rfind d [] = None"
| "rfind d (c # cs) =
     (case rfind d cs of
        Some i \<Rightarrow> Some (Suc i)
      | None \<Rightarrow> if c = d then Some 0 else None)"

definition path_stem :: "string \<Rightarrow> string" where
  "path_stem p =
     (let n = path_name p in
      case rfind CHR ''.'' n of
        None \<Rightarrow> n
      | Some i \<Rightarrow> if 0 < i \<and> i < length n - 1 then take i n else n)"

section \<open>Risk calculator (risk\_calculator.py)\<close>

datatype FailureMode =
  MISSED_USAGE | INCONSISTENT_RENAME | TYPE_MISMATCH | TEST_FAILURE | DOCUMENTATION_SYNC

datatype DetectionMethod =
  SEMANTIC_GRAPH | TYPE_CHECKER | TESTS | BUILD_SYSTEM | MANUAL_REVIEW

text \<open>
  The probabilities are Python floats written as short decimal literals; they are modelled
  by the rationals those literals denote, and \<open>round2\<close> is \<^verbatim>\<open>round(x, 2)\<close> on them
  (round half to even on the second decimal).
\<close>

record FailureModeAnalysis =
  fm_mode :: FailureMode
  fm_name :: string
  fm_probability_percent :: rat
  fm_probability_label :: string
  fm_impact_description :: string
  fm_symptom :: string
  fm_detection_method :: DetectionMethod
  fm_recovery_time_minutes :: int
  fm_probability_with_graph :: rat
  fm_probability_without_graph :: rat

record MitigationStrategy =
  ms_failure_mode :: FailureMode
  ms_strategy :: string
  ms_effectiveness_percent :: rat

record RiskAssessment =
  ra_function_name :: string
  ra_change_type :: string
  ra_failure_modes :: "FailureModeAnalysis list"
  ra_mitigations :: "MitigationStrategy list"
  ra_success_rate_percent :: rat

definition round2 :: "rat \<Rightarrow> rat" where
  "round2 x =
     (let y = x * 100; f = \<lfloor>y\<rfloor>; d = y - of_int f in
      of_int (if d < 1 / 2 then f else if 1 / 2 < d then f + 1
              else if even f then f else f + 1) / 100)"

definition analyze_missed_usage :: FailureModeAnalysis where
  \<open>analyze_missed_usage =
     \<lparr>fm_mode = MISSED_USAGE,
      fm_name = ''Missed a usage location'',
      fm_probability_percent = 1 / 100,
      fm_probability_label = ''LOW'',
      fm_impact_description = ''Code breaks at that location'',
      fm_symptom = ''Runtime error "function is not defined"'',
      fm_detection_method = TESTS,
      fm_recovery_time_minutes = 30,
      fm_probability_with_graph = 1 / 100,
      fm_probability_without_graph = 30\<rparr>\<close>

definition analyze_inconsistent_rename :: FailureModeAnalysis where
  \<open>analyze_inconsistent_rename =
     \<lparr>fm_mode = INCONSISTENT_RENAME,
      fm_name = ''Inconsistent renaming'',
      fm_probability_percent = 5 / 100,
      fm_probability_label = ''LOW'',
      fm_impact_description = ''Some files renamed, others not'',
      fm_symptom = ''"function is not defined" in some modules'',
      fm_detection_method = TESTS,
      fm_recovery_time_minutes = 2,
      fm_probability_with_graph = 1 / 100,
      fm_probability_without_graph = 30\<rparr>\<close>

definition analyze_type_mismatch :: FailureModeAnalysis where
  \<open>analyze_type_mismatch =
     \<lparr>fm_mode = TYPE_MISMATCH,
      fm_name = ''Type system mismatch'',
      fm_probability_percent = 2,
      fm_probability_label = ''MEDIUM'',
      fm_impact_description = ''Type checker reports errors'',
      fm_symptom = ''"function is not assigned to type X"'',
      fm_detection_method = TYPE_CHECKER,
      fm_recovery_time_minutes = 30,
      fm_probability_with_graph = 1 / 100,
      fm_probability_without_graph = 30\<rparr>\<close>

definition analyze_test_failure :: FailureModeAnalysis where
  \<open>analyze_test_failure =
     \<lparr>fm_mode = TEST_FAILURE,
      fm_name = ''Test expectations wrong'',
      fm_probability_percent = 5 / 10,
      fm_probability_label = ''LOW'',
      fm_impact_description = ''Tests reference old function name'',
      fm_symptom = ''"function is not defined" in tests'',
      fm_detection_method = TESTS,
      fm_recovery_time_minutes = 10,
      fm_probability_with_graph = 1 / 100,
      fm_probability_without_graph = 30\<rparr>\<close>

definition analyze_documentation_sync :: FailureModeAnalysis where
  \<open>analyze_documentation_sync =
     \<lparr>fm_mode = DOCUMENTATION_SYNC,
      fm_name = ''Documentation out of sync'',
      fm_probability_percent = 50,
      fm_probability_label = ''HIGH'',
      fm_impact_description = ''Documentation still references old name'',
      fm_symptom = ''Developer confusion'',
      fm_detection_method = MANUAL_REVIEW,
      fm_recovery_time_minutes = 30,
      fm_probability_with_graph = 1 / 100,
      fm_probability_without_graph = 30\<rparr>\<close>

definition generate_mitigations :: "MitigationStrategy list" where
  "generate_mitigations =
     [\<lparr>ms_failure_mode = MISSED_USAGE,
       ms_strategy = ''Use semantic graph to find ALL usages before changing'',
       ms_effectiveness_percent = 9999 / 100\<rparr>,
      \<lparr>ms_failure_mode = INCONSISTENT_RENAME,
       ms_strategy = ''Semantic graph ensures all locations updated atomically'',
       ms_effectiveness_percent = 9995 / 100\<rparr>,
      \<lparr>ms_failure_mode = TYPE_MISMATCH,
       ms_strategy = ''Run TypeScript type checker before deployment'',
       ms_effectiveness_percent = 98\<rparr>,
      \<lparr>ms_failure_mode = TEST_FAILURE,
       ms_strategy = ''Execute full test suite in sandbox before approval'',
       ms_effectiveness_percent = 995 / 10\<rparr>,
      \<lparr>ms_failure_mode = DOCUMENTATION_SYNC,
       ms_strategy = ''Human approval process reviews docs during code review'',
       ms_effectiveness_percent = 50\<rparr>]"

definition calculate_success_rate :: "FailureModeAnalysis list \<Rightarrow> rat" where
  "calculate_success_rate failure_modes =
     (let technical_modes = filter (\<lambda>fm. fm_mode fm \<noteq> DOCUMENTATION_SYNC) failure_modes;
          total_failure_probability = sum_list (map fm_probability_percent technical_modes);
          success_rate = 100 - total_failure_probability
      in round2 success_rate)"

definition calculate_failure_modes :: "string \<Rightarrow> string \<Rightarrow> RiskAssessment" where
  "calculate_failure_modes function_name change_type =
     (let failure_modes =
            [analyze_missed_usage, analyze_inconsistent_rename, analyze_type_mismatch,
             analyze_test_failure, analyze_documentation_sync]
      in \<lparr>ra_function_name = function_name,
          ra_change_type = change_type,
          ra_failure_modes = failure_modes,
          ra_mitigations = generate_mitigations,
          ra_success_rate_percent = calculate_success_rate failure_modes\<rparr>)"

section \<open>Parser output (parser.py)\<close>

text \<open>
  The records the parser emits. Record fields carry a short prefix of their class
  (\<open>fd_\<close>, \<open>fc_\<close>, \<open>im_\<close>, \<open>ex_\<close>, \<open>pf_\<close>, \<open>gn_\<close>, \<open>ge_\<close>, ...), since the classes
  share field names such as \<^verbatim>\<open>file_path\<close>; Python integers are \<open>int\<close>.
\<close>

datatype FileType = PYTHON | JAVASCRIPT | TYPESCRIPT | JSX | TSX

record FunctionDefinition =
  fd_name :: string
  fd_file_path :: string
  fd_line_number :: int
  fd_end_line :: int
  fd_parameters :: "string list"
  fd_is_exported :: bool
  fd_is_async :: bool
  fd_decorators :: "string list"
  fd_docstring :: "string option"

record FunctionCall =
  fc_function_name :: string
  fc_file_path :: string
  fc_line_number :: int
  fc_calling_function :: "string option"
  fc_arguments_count :: int

record ImportStatement =
  im_imported_names :: "string list"
  im_source_module :: string
  im_file_path :: string
  im_line_number :: int
  im_is_default_import :: bool

record ExportStatement =
  ex_exported_names :: "string list"
  ex_file_path :: string
  ex_line_number :: int
  ex_is_default_export :: bool

record ParsedFile =
  pf_file_path :: string
  pf_file_type :: FileType
  pf_functions :: "FunctionDefinition list"
  pf_calls :: "FunctionCall list"
  pf_imports :: "ImportStatement list"
  pf_exports :: "ExportStatement list"
  pf_parse_errors :: "string list"

section \<open>Graph structure and graph builder (graph\_builder.py)\<close>

datatype NodeType = FUNCTION | CLASS | FILE | MODULE

datatype EdgeType = CALLS | IMPORTS | EXPORTS | DEFINES | CONTAINED_IN

record GraphNode =
  gn_id :: string
  gn_name :: string
  gn_type :: NodeType
  gn_file_path :: string
  gn_line_number :: int
  gn_end_line :: int
  gn_parameters :: "string list"
  gn_is_exported :: bool
  gn_is_async :: bool
  gn_decorators :: "string list"
  gn_calls :: "string list"
  gn_called_by :: "string list"
  gn_imported_from :: "string option"
  gn_imported_in :: "string list"

record GraphEdge =
  ge_id :: string
  ge_source_id :: string
  ge_target_id :: string
  ge_edge_type :: EdgeType
  ge_file_path :: string
  ge_line_number :: int
  ge_context :: "string option"

text \<open>
  The node dictionary is an association list in insertion order: Python dictionaries keep
  that order, and the indexer iterates over it. Assigning to a key that is present replaces
  the value in place (\<open>AList.update\<close>), a new key is appended.
\<close>

record CodeGraph =
  nodes :: "(string \<times> GraphNode) list"
  edges :: "GraphEdge list"
  total_functions :: int
  total_files :: int
  total_calls :: int
  total_imports :: int

definition empty_graph :: CodeGraph where
  "empty_graph =
     \<lparr>nodes = [], edges = [], total_functions = 0, total_files = 0,
      total_calls = 0, total_imports = 0\<rparr>"

definition add_node :: "CodeGraph \<Rightarrow> GraphNode \<Rightarrow> CodeGraph" where
  "add_node g node =
     g\<lparr>nodes := AList.update (gn_id node) node (nodes g),
       total_functions :=
         (if gn_type node = FUNCTION then total_functions g + 1 else total_functions g),
       total_files :=
         (if gn_type node \<noteq> FUNCTION \<and> gn_type node = FILE then total_files g + 1
          else total_files g)\<rparr>"

definition add_edge :: "CodeGraph \<Rightarrow> GraphEdge \<Rightarrow> CodeGraph" where
  "add_edge g edge =
     g\<lparr>edges := edges g @ [edge],
       total_calls :=
         (if ge_edge_type edge = CALLS then total_calls g + 1 else total_calls g),
       total_imports :=
         (if ge_edge_type edge \<noteq> CALLS \<and> ge_edge_type edge = IMPORTS
          then total_imports g + 1 else total_imports g)\<rparr>"

definition get_node :: "CodeGraph \<Rightarrow> string \<Rightarrow> GraphNode option" where
  "get_node g node_id = map_of (nodes g) node_id"

text \<open>
  The builder's state: the graph under construction and \<^verbatim>\<open>_function_map\<close>, the
  dictionary from bare function names to node identifiers. Every method that mutates
  \<^verbatim>\<open>self\<close> takes the state and returns the new one.
\<close>

record GraphBuilder =
  storage_type :: string
  graph :: CodeGraph
  function_map :: "(string \<times> string) list"

definition new_builder :: "string \<Rightarrow> GraphBuilder" where
  "new_builder st = \<lparr>storage_type = st, graph = empty_graph, function_map = []\<rparr>"

definition make_file_id :: "string \<Rightarrow> string" where
  "make_file_id file_path = ''file:'' @ path_name file_path"

definition make_function_id :: "string \<Rightarrow> string \<Rightarrow> string" where
  "make_function_id file_path func_name = path_stem file_path @ '':'' @ func_name"

definition file_node :: "ParsedFile \<Rightarrow> GraphNode" where
  "file_node parsed_file =
     \<lparr>gn_id = make_file_id (pf_file_path parsed_file),
      gn_name = path_name (pf_file_path parsed_file),
      gn_type = FILE,
      gn_file_path = pf_file_path parsed_file,
      gn_line_number = 1,
      gn_end_line = 0,
      gn_parameters = [],
      gn_is_exported = False,
      gn_is_async = False,
      gn_decorators = [],
      gn_calls = [],
      gn_called_by = [],
      gn_imported_from = None,
      gn_imported_in = []\<rparr>"

definition create_file_node :: "ParsedFile \<Rightarrow> GraphBuilder \<Rightarrow> GraphBuilder" where
  "create_file_node parsed_file b = b\<lparr>graph := add_node (graph b) (file_node parsed_file)\<rparr>"

definition function_node :: "FunctionDefinition \<Rightarrow> GraphNode" where
  "function_node func_def =
     \<lparr>gn_id = make_function_id (fd_file_path func_def) (fd_name func_def),
      gn_name = fd_name func_def,
      gn_type = FUNCTION,
      gn_file_path = fd_file_path func_def,
      gn_line_number = fd_line_number func_def,
      gn_end_line = fd_end_line func_def,
      gn_parameters = fd_parameters func_def,
      gn_is_exported = fd_is_exported func_def,
      gn_is_async = fd_is_async func_def,
      gn_decorators = fd_decorators func_def,
      gn_calls = [],
      gn_called_by = [],
      gn_imported_from = None,
      gn_imported_in = []\<rparr>"

definition defines_edge :: "FunctionDefinition \<Rightarrow> GraphEdge" where
  "defines_edge func_def =
     (let node_id = make_function_id (fd_file_path func_def) (fd_name func_def);
          file_id = make_file_id (fd_file_path func_def)
      in \<lparr>ge_id = file_id @ ''->defines->'' @ node_id,
          ge_source_id = file_id,
          ge_target_id = node_id,
          ge_edge_type = DEFINES,
          ge_file_path = fd_file_path func_def,
          ge_line_number = fd_line_number func_def,
          ge_context = None\<rparr>)"

text \<open>The body of the loop of \<^verbatim>\<open>_create_function_nodes\<close>, for one definition.\<close>

definition create_function_node :: "FunctionDefinition \<Rightarrow> GraphBuilder \<Rightarrow> GraphBuilder" where
  "create_function_node func_def b =
     b\<lparr>graph := add_edge (add_node (graph b) (function_node func_def)) (defines_edge func_def),
       function_map :=
         AList.update (fd_name func_def)
           (make_function_id (fd_file_path func_def) (fd_name func_def)) (function_map b)\<rparr>"

definition create_function_nodes :: "ParsedFile \<Rightarrow> GraphBuilder \<Rightarrow> GraphBuilder" where
  "create_function_nodes parsed_file b = fold create_function_node (pf_functions parsed_file) b"

definition resolve_function_id :: "GraphBuilder \<Rightarrow> string \<Rightarrow> string \<Rightarrow> string option" where
  "resolve_function_id b func_name context_file =
     (let local_id = make_function_id context_file func_name in
      if get_node (graph b) local_id \<noteq> None then Some local_id
      else map_of (function_map b) func_name)"

definition resolve_imported_function ::
  "GraphBuilder \<Rightarrow> string \<Rightarrow> string \<Rightarrow> string \<Rightarrow> string option" where
  "resolve_imported_function b func_name source_module importing_file =
     map_of (function_map b) func_name"

text \<open>
  The source identifier of a call site: the enclosing function's identifier when
  \<^verbatim>\<open>calling_function\<close> is truthy (present and not the empty string), the file's
  identifier otherwise. It is built from the names alone; the node map is not consulted.
\<close>

definition call_source_id :: "FunctionCall \<Rightarrow> string" where
  "call_source_id call =
     (case fc_calling_function call of
        Some f \<Rightarrow>
          if f \<noteq> [] then make_function_id (fc_file_path call) f
          else make_file_id (fc_file_path call)
      | None \<Rightarrow> make_file_id (fc_file_path call))"

definition calls_edge :: "FunctionCall \<Rightarrow> string \<Rightarrow> string \<Rightarrow> GraphEdge" where
  "calls_edge call source_id target_id =
     \<lparr>ge_id = source_id @ ''->calls->'' @ target_id @ ''@'' @ str_int (fc_line_number call),
      ge_source_id = source_id,
      ge_target_id = target_id,
      ge_edge_type = CALLS,
      ge_file_path = fc_file_path call,
      ge_line_number = fc_line_number call,
      ge_context = None\<rparr>"

text \<open>
  The body of the loop of \<^verbatim>\<open>_create_call_edges\<close>. The test
  \<^verbatim>\<open>if source_id and target_id\<close> is Python truthiness: neither \<^verbatim>\<open>None\<close> nor the
  empty string.
\<close>

definition create_call_edge :: "FunctionCall \<Rightarrow> GraphBuilder \<Rightarrow> GraphBuilder" where
  "create_call_edge call b =
     (let source_id = call_source_id call in
      case resolve_function_id b (fc_function_name call) (fc_file_path call) of
        None \<Rightarrow> b
      | Some target_id \<Rightarrow>
          if source_id \<noteq> [] \<and> target_id \<noteq> [] then
            (let g = add_edge (graph b) (calls_edge call source_id target_id) in
             case get_node g source_id of
               None \<Rightarrow> b\<lparr>graph := g\<rparr>
             | Some source_node \<Rightarrow>
                 if target_id \<notin> set (gn_calls source_node) then
                   b\<lparr>graph := g\<lparr>nodes :=
                       AList.update source_id
                         (source_node\<lparr>gn_calls := gn_calls source_node @ [target_id]\<rparr>)
                         (nodes g)\<rparr>\<rparr>
                 else b\<lparr>graph := g\<rparr>)
          else b)"

definition create_call_edges :: "ParsedFile \<Rightarrow> GraphBuilder \<Rightarrow> GraphBuilder" where
  "create_call_edges parsed_file b = fold create_call_edge (pf_calls parsed_file) b"

definition imports_edge :: "ParsedFile \<Rightarrow> ImportStatement \<Rightarrow> string \<Rightarrow> GraphEdge" where
  "imports_edge parsed_file imp target_id =
     (let file_id = make_file_id (pf_file_path parsed_file) in
      \<lparr>ge_id = file_id @ ''->imports->'' @ target_id @ ''@'' @ str_int (im_line_number imp),
       ge_source_id = file_id,
       ge_target_id = target_id,
       ge_edge_type = IMPORTS,
       ge_file_path = pf_file_path parsed_file,
       ge_line_number = im_line_number imp,
       ge_context = Some (''from '' @ im_source_module imp)\<rparr>)"

definition create_import_edge ::
  "ParsedFile \<Rightarrow> ImportStatement \<Rightarrow> string \<Rightarrow> GraphBuilder \<Rightarrow> GraphBuilder" where
  "create_import_edge parsed_file imp imported_name b =
     (case resolve_imported_function b imported_name (im_source_module imp)
             (pf_file_path parsed_file) of
        None \<Rightarrow> b
      | Some target_id \<Rightarrow>
          if target_id \<noteq> [] then
            b\<lparr>graph := add_edge (graph b) (imports_edge parsed_file imp target_id)\<rparr>
          else b)"

definition create_import_edges :: "ParsedFile \<Rightarrow> GraphBuilder \<Rightarrow> GraphBuilder" where
  "create_import_edges parsed_file b =
     fold (\<lambda>imp. fold (create_import_edge parsed_file imp) (im_imported_names imp))
       (pf_imports parsed_file) b"

definition exports_edge :: "ParsedFile \<Rightarrow> ExportStatement \<Rightarrow> string \<Rightarrow> GraphEdge" where
  "exports_edge parsed_file exp_stmt func_id =
     (let file_id = make_file_id (pf_file_path parsed_file) in
      \<lparr>ge_id = file_id @ ''->exports->'' @ func_id @ ''@'' @ str_int (ex_line_number exp_stmt),
       ge_source_id = file_id,
       ge_target_id = func_id,
       ge_edge_type = EXPORTS,
       ge_file_path = pf_file_path parsed_file,
       ge_line_number = ex_line_number exp_stmt,
       ge_context = None\<rparr>)"

definition create_export_edge ::
  "ParsedFile \<Rightarrow> ExportStatement \<Rightarrow> string \<Rightarrow> GraphBuilder \<Rightarrow> GraphBuilder" where
  "create_export_edge parsed_file exp_stmt exported_name b =
     (let func_id = make_function_id (pf_file_path parsed_file) exported_name in
      if get_node (graph b) func_id \<noteq> None then
        b\<lparr>graph := add_edge (graph b) (exports_edge parsed_file exp_stmt func_id)\<rparr>
      else b)"

definition create_export_edges :: "ParsedFile \<Rightarrow> GraphBuilder \<Rightarrow> GraphBuilder" where
  "create_export_edges parsed_file b =
     fold (\<lambda>exp_stmt. fold (create_export_edge parsed_file exp_stmt) (ex_exported_names exp_stmt))
       (pf_exports parsed_file) b"

text \<open>
  The body of the loop of \<^verbatim>\<open>_build_reverse_relationships\<close>: the loop runs over the
  edge list, which it does not change, and appends to the lists of the target nodes.
\<close>

definition reverse_step :: "GraphEdge \<Rightarrow> CodeGraph \<Rightarrow> CodeGraph" where
  "reverse_step edge g =
     (if ge_edge_type edge = CALLS then
        (case get_node g (ge_target_id edge) of
           None \<Rightarrow> g
         | Some target_node \<Rightarrow>
             if ge_source_id edge \<notin> set (gn_called_by target_node) then
               g\<lparr>nodes := AList.update (ge_target_id edge)
                   (target_node\<lparr>gn_called_by := gn_called_by target_node @ [ge_source_id edge]\<rparr>)
                   (nodes g)\<rparr>
             else g)
      else if ge_edge_type edge = IMPORTS then
        (case get_node g (ge_target_id edge) of
           None \<Rightarrow> g
         | Some target_node \<Rightarrow>
             if ge_file_path edge \<notin> set (gn_imported_in target_node) then
               g\<lparr>nodes := AList.update (ge_target_id edge)
                   (target_node\<lparr>gn_imported_in := gn_imported_in target_node @ [ge_file_path edge]\<rparr>)
                   (nodes g)\<rparr>
             else g)
      else g)"

definition build_reverse_relationships :: "CodeGraph \<Rightarrow> CodeGraph" where
  "build_reverse_relationships g = fold reverse_step (edges g) g"

text \<open>
  \<^verbatim>\<open>GraphBuilder.build_graph\<close>: six passes over the parsed files. The model returns
  the builder's final state; the method's return value is its \<open>graph\<close>.
\<close>

definition build_graph :: "GraphBuilder \<Rightarrow> ParsedFile list \<Rightarrow> GraphBuilder" where
  "build_graph b parsed_files =
     (let b1 = fold create_file_node parsed_files b;
          b2 = fold create_function_nodes parsed_files b1;
          b3 = fold create_call_edges parsed_files b2;
          b4 = fold create_import_edges parsed_files b3;
          b5 = fold create_export_edges parsed_files b4
      in b5\<lparr>graph := build_reverse_relationships (graph b5)\<rparr>)"

section \<open>Indexes and usage queries (analyzer.py)\<close>

datatype UsageType = DEFINITION | EXPORT | IMPORT | CALL | TEST

record UsageLocation =
  ul_usage_type :: UsageType
  ul_file_path :: string
  ul_line_number :: int
  ul_context :: string
  ul_containing_function :: "string option"

text \<open>
  The index dictionaries are association lists as well. The \<^verbatim>\<open>defaultdict(list)\<close>
  idiom \<^verbatim>\<open>d[k].append(v)\<close> is \<open>dd_append\<close>: append to the list under a present key, start
  a one-element list under a new one.
\<close>

record GraphIndexes =
  function_usages :: "(string \<times> UsageLocation list) list"
  file_functions :: "(string \<times> string list) list"
  function_calls :: "(string \<times> string list) list"
  function_called_by :: "(string \<times> string list) list"
  exported_functions :: "(string \<times> string) list"
  imported_functions :: "(string \<times> (string \<times> string) list) list"

definition empty_indexes :: GraphIndexes where
  "empty_indexes =
     \<lparr>function_usages = [], file_functions = [], function_calls = [],
      function_called_by = [], exported_functions = [], imported_functions = []\<rparr>"

definition dd_append :: "'k \<Rightarrow> 'v \<Rightarrow> ('k \<times> 'v list) list \<Rightarrow> ('k \<times> 'v list) list" where
  "dd_append k v d = map_default k [v] (\<lambda>l. l @ [v]) d"

record UsageReport =
  ur_function_name :: string
  ur_node_id :: string
  ur_definition :: "UsageLocation option"
  ur_exports :: "UsageLocation list"
  ur_imports :: "UsageLocation list"
  ur_calls :: "UsageLocation list"
  ur_tests :: "UsageLocation list"
  ur_total_usages :: int
  ur_files_affected :: "string set"

text \<open>
  \<^verbatim>\<open>CodeAnalyzer\<close> holds the graph and its indexes. Its third attribute, the cache of
  file contents behind \<^verbatim>\<open>_get_code_context\<close>, reads the file system; the snippet
  lookup is the parameter \<open>ctx\<close> (path and line to snippet) of the index construction.
\<close>

record CodeAnalyzer =
  an_graph :: CodeGraph
  an_indexes :: GraphIndexes

definition build_file_functions_index :: "CodeGraph \<Rightarrow> GraphIndexes \<Rightarrow> GraphIndexes" where
  "build_file_functions_index g idx =
     fold (\<lambda>(node_id, node) idx.
             if gn_type node = FUNCTION then
               idx\<lparr>file_functions := dd_append (gn_file_path node) node_id (file_functions idx)\<rparr>
             else idx)
       (nodes g) idx"

definition build_call_indexes :: "CodeGraph \<Rightarrow> GraphIndexes \<Rightarrow> GraphIndexes" where
  "build_call_indexes g idx =
     fold (\<lambda>edge idx.
             if ge_edge_type edge = CALLS then
               idx\<lparr>function_calls :=
                     dd_append (ge_source_id edge) (ge_target_id edge) (function_calls idx),
                   function_called_by :=
                     dd_append (ge_target_id edge) (ge_source_id edge) (function_called_by idx)\<rparr>
             else idx)
       (edges g) idx"

definition definition_usage :: "(string \<Rightarrow> int \<Rightarrow> string) \<Rightarrow> GraphNode \<Rightarrow> UsageLocation" where
  "definition_usage ctx node =
     \<lparr>ul_usage_type = DEFINITION,
      ul_file_path = gn_file_path node,
      ul_line_number = gn_line_number node,
      ul_context = ctx (gn_file_path node) (gn_line_number node),
      ul_containing_function = None\<rparr>"

definition edge_usage :: "(string \<Rightarrow> int \<Rightarrow> string) \<Rightarrow> UsageType \<Rightarrow> GraphEdge \<Rightarrow> UsageLocation" where
  "edge_usage ctx t edge =
     \<lparr>ul_usage_type = t,
      ul_file_path = ge_file_path edge,
      ul_line_number = ge_line_number edge,
      ul_context = ctx (ge_file_path edge) (ge_line_number edge),
      ul_containing_function = None\<rparr>"

definition call_usage :: "(string \<Rightarrow> int \<Rightarrow> string) \<Rightarrow> CodeGraph \<Rightarrow> GraphEdge \<Rightarrow> UsageLocation" where
  "call_usage ctx g edge =
     (let containing_func =
            (case get_node g (ge_source_id edge) of
               Some source_node \<Rightarrow> Some (gn_name source_node)
             | None \<Rightarrow> None);
          is_test = str_contains (lower (ge_file_path edge)) ''test'';
          usage_type = (if is_test then TEST else CALL)
      in \<lparr>ul_usage_type = usage_type,
          ul_file_path = ge_file_path edge,
          ul_line_number = ge_line_number edge,
          ul_context = ctx (ge_file_path edge) (ge_line_number edge),
          ul_containing_function = containing_func\<rparr>)"

text \<open>
  The usage list \<^verbatim>\<open>_build_usage_index\<close> assembles for one function node: the
  definition, then the export edges, then the import edges file by file, then the call
  edges, each in edge order.
\<close>

definition node_usages ::
  "(string \<Rightarrow> int \<Rightarrow> string) \<Rightarrow> CodeGraph \<Rightarrow> string \<Rightarrow> GraphNode \<Rightarrow> UsageLocation list" where
  "node_usages ctx g node_id node =
     [definition_usage ctx node]
     @ map (edge_usage ctx EXPORT)
         (filter (\<lambda>edge. ge_target_id edge = node_id \<and> ge_edge_type edge = EXPORTS) (edges g))
     @ concat (map (\<lambda>import_file.
           map (edge_usage ctx IMPORT)
             (filter (\<lambda>edge. ge_target_id edge = node_id \<and> ge_edge_type edge = IMPORTS
                              \<and> ge_file_path edge = import_file) (edges g)))
         (gn_imported_in node))
     @ map (call_usage ctx g)
         (filter (\<lambda>edge. ge_target_id edge = node_id \<and> ge_edge_type edge = CALLS) (edges g))"

definition build_usage_index ::
  "(string \<Rightarrow> int \<Rightarrow> string) \<Rightarrow> CodeGraph \<Rightarrow> GraphIndexes \<Rightarrow> GraphIndexes" where
  "build_usage_index ctx g idx =
     fold (\<lambda>(node_id, node) idx.
             if gn_type node = FUNCTION then
               (let usages = node_usages ctx g node_id node in
                idx\<lparr>function_usages :=
                      AList.update node_id usages
                        (AList.update (gn_name node) usages (function_usages idx))\<rparr>)
             else idx)
       (nodes g) idx"

definition build_export_import_indexes :: "CodeGraph \<Rightarrow> GraphIndexes \<Rightarrow> GraphIndexes" where
  "build_export_import_indexes g idx =
     fold (\<lambda>(node_id, node) idx.
             if gn_type node = FUNCTION \<and> gn_is_exported node then
               idx\<lparr>exported_functions :=
                     AList.update (gn_name node) node_id (exported_functions idx)\<rparr>
             else idx)
       (nodes g) idx"

definition create_indexes :: "(string \<Rightarrow> int \<Rightarrow> string) \<Rightarrow> CodeGraph \<Rightarrow> GraphIndexes" where
  "create_indexes ctx g =
     build_export_import_indexes g
       (build_usage_index ctx g
          (build_call_indexes g
             (build_file_functions_index g empty_indexes)))"

text \<open>\<^verbatim>\<open>CodeAnalyzer(graph)\<close> followed by \<^verbatim>\<open>create_indexes()\<close>.\<close>

definition new_analyzer :: "(string \<Rightarrow> int \<Rightarrow> string) \<Rightarrow> CodeGraph \<Rightarrow> CodeAnalyzer" where
  "new_analyzer ctx g = \<lparr>an_graph = g, an_indexes = create_indexes ctx g\<rparr>"

definition get_node_id_by_name :: "CodeAnalyzer \<Rightarrow> string \<Rightarrow> string option" where
  "get_node_id_by_name a function_name =
     map_of (exported_functions (an_indexes a)) function_name"

text \<open>The body of the categorising loop of \<^verbatim>\<open>find_all_usages\<close>.\<close>

definition categorize_usage :: "UsageLocation \<Rightarrow> UsageReport \<Rightarrow> UsageReport" where
  "categorize_usage usage report =
     (let r =
        (case ul_usage_type usage of
           DEFINITION \<Rightarrow> report\<lparr>ur_definition := Some usage\<rparr>
         | EXPORT \<Rightarrow> report\<lparr>ur_exports := ur_exports report @ [usage]\<rparr>
         | IMPORT \<Rightarrow> report\<lparr>ur_imports := ur_imports report @ [usage]\<rparr>
         | CALL \<Rightarrow> report\<lparr>ur_calls := ur_calls report @ [usage]\<rparr>
         | TEST \<Rightarrow> report\<lparr>ur_tests := ur_tests report @ [usage]\<rparr>)
      in r\<lparr>ur_files_affected := insert (ul_file_path usage) (ur_files_affected r)\<rparr>)"

definition empty_report :: "string \<Rightarrow> string \<Rightarrow> UsageReport" where
  "empty_report function_name node_id =
     \<lparr>ur_function_name = function_name, ur_node_id = node_id, ur_definition = None,
      ur_exports = [], ur_imports = [], ur_calls = [], ur_tests = [],
      ur_total_usages = 0, ur_files_affected = {}\<rparr>"

text \<open>
  \<^verbatim>\<open>find_all_usages\<close>: absent (\<open>None\<close>) when the name is no key of the usage index or
  its list is empty (\<^verbatim>\<open>if not usages\<close>).
\<close>

definition find_all_usages :: "CodeAnalyzer \<Rightarrow> string \<Rightarrow> UsageReport option" where
  "find_all_usages a function_name =
     (case map_of (function_usages (an_indexes a)) function_name of
        None \<Rightarrow> None
      | Some usages \<Rightarrow>
          if usages = [] then None
          else
            (let node_id = (case get_node_id_by_name a function_name of
                              Some i \<Rightarrow> i | None \<Rightarrow> []);
                 report = fold categorize_usage usages (empty_report function_name node_id)
             in Some (report\<lparr>ur_total_usages := int (length usages)\<rparr>)))"

definition get_callers :: "CodeAnalyzer \<Rightarrow> string \<Rightarrow> string list" where
  "get_callers a function_name =
     (case get_node_id_by_name a function_name of
        None \<Rightarrow> []
      | Some node_id \<Rightarrow>
          if node_id = [] then []
          else (case map_of (function_called_by (an_indexes a)) node_id of
                  Some l \<Rightarrow> l | None \<Rightarrow> []))"

definition get_calls :: "CodeAnalyzer \<Rightarrow> string \<Rightarrow> string list" where
  "get_calls a function_name =
     (case get_node_id_by_name a function_name of
        None \<Rightarrow> []
      | Some node_id \<Rightarrow>
          if node_id = [] then []
          else (case map_of (function_calls (an_indexes a)) node_id of
                  Some l \<Rightarrow> l | None \<Rightarrow> []))"

section \<open>Impact analysis (impact\_analyzer.py)\<close>

datatype CriticalityLevel = CRITICAL_PATH | SECONDARY | TERTIARY | NON_CRITICAL

datatype RiskLevel = LOW | MEDIUM | HIGH | CRITICAL

text \<open>
  \<^verbatim>\<open>ModuleUsage\<close> and \<^verbatim>\<open>ImpactReport\<close> without the two prose fields
  \<^verbatim>\<open>risk_description\<close> and \<^verbatim>\<open>impact_description\<close> of a module, which are
  display text derived from the tier and read by no computation.
\<close>

record ModuleUsage =
  mu_module_name :: string
  mu_file_path :: string
  mu_criticality :: CriticalityLevel
  mu_definition_count :: int
  mu_export_count :: int
  mu_import_count :: int
  mu_call_count :: int
  mu_usages :: "UsageLocation list"

definition mu_total_usages :: "ModuleUsage \<Rightarrow> int" where
  "mu_total_usages m = int (length (mu_usages m))"

record RiskScore =
  rs_critical_path_usages :: int
  rs_secondary_usages :: int
  rs_tertiary_usages :: int
  rs_non_critical_usages :: int
  rs_total_score :: int
  rs_risk_level :: RiskLevel
  rs_critical_points :: int
  rs_secondary_points :: int
  rs_tertiary_points :: int
  rs_non_critical_points :: int

definition new_risk_score :: RiskScore where
  "new_risk_score =
     \<lparr>rs_critical_path_usages = 0, rs_secondary_usages = 0, rs_tertiary_usages = 0,
      rs_non_critical_usages = 0, rs_total_score = 0, rs_risk_level = LOW,
      rs_critical_points = 0, rs_secondary_points = 0, rs_tertiary_points = 0,
      rs_non_critical_points = 0\<rparr>"

definition calculate :: "RiskScore \<Rightarrow> RiskScore" where
  "calculate s =
     (let critical_points = rs_critical_path_usages s * 10;
          secondary_points = rs_secondary_usages s * 5;
          tertiary_points = rs_tertiary_usages s * 2;
          non_critical_points = rs_non_critical_usages s * 1;
          total_score = critical_points + secondary_points + tertiary_points + non_critical_points
      in s\<lparr>rs_critical_points := critical_points,
           rs_secondary_points := secondary_points,
           rs_tertiary_points := tertiary_points,
           rs_non_critical_points := non_critical_points,
           rs_total_score := total_score,
           rs_risk_level :=
             (if total_score \<ge> 101 then CRITICAL
              else if total_score \<ge> 51 then HIGH
              else if total_score \<ge> 21 then MEDIUM
              else LOW)\<rparr>)"

record ImpactReport =
  ir_function_name :: string
  ir_change_description :: string
  ir_modules :: "ModuleUsage list"
  ir_risk_score :: RiskScore
  ir_revenue_impact_low :: string
  ir_revenue_impact_high :: string
  ir_affected_users :: string
  ir_recovery_time :: string
  ir_total_usages :: int
  ir_total_files :: int

text \<open>\<^verbatim>\<open>MODULE_PATTERNS\<close>, in the order the dictionary literal lists its keys.\<close>

definition MODULE_PATTERNS :: "(string \<times> CriticalityLevel) list" where
  "MODULE_PATTERNS =
     [(''checkout'', CRITICAL_PATH),
      (''payment'', CRITICAL_PATH),
      (''auth'', CRITICAL_PATH),
      (''billing'', CRITICAL_PATH),
      (''invoice'', SECONDARY),
      (''report'', SECONDARY),
      (''email'', SECONDARY),
      (''notification'', SECONDARY),
      (''util'', TERTIARY),
      (''helper'', TERTIARY),
      (''validate'', TERTIARY),
      (''format'', TERTIARY),
      (''test'', NON_CRITICAL),
      (''spec'', NON_CRITICAL),
      (''mock'', NON_CRITICAL),
      (''fixture'', NON_CRITICAL)]"

text \<open>
  \<^verbatim>\<open>_determine_criticality\<close>: the loop over \<^verbatim>\<open>MODULE_PATTERNS.items()\<close> returns at
  the first pattern found in the lowered path or the lowered file name.
\<close>

definition determine_criticality :: "string \<Rightarrow> string \<Rightarrow> CriticalityLevel" where
  "determine_criticality file_path file_name =
     (let file_path_lower = lower file_path;
          file_name_lower = lower file_name
      in case find (\<lambda>(pattern, criticality).
                      str_contains file_path_lower pattern \<or> str_contains file_name_lower pattern)
                MODULE_PATTERNS of
           Some (pattern, criticality) \<Rightarrow> criticality
         | None \<Rightarrow> SECONDARY)"

definition count_type :: "UsageType \<Rightarrow> UsageLocation list \<Rightarrow> int" where
  "count_type t usages = int (length (filter (\<lambda>u. ul_usage_type u = t) usages))"

definition create_module_usage :: "string \<Rightarrow> UsageLocation list \<Rightarrow> ModuleUsage" where
  "create_module_usage file_path usages =
     (let file_name = path_stem file_path;
          criticality = determine_criticality file_path file_name
      in \<lparr>mu_module_name = upper file_name @ '' MODULE'',
          mu_file_path = file_path,
          mu_criticality = criticality,
          mu_definition_count = count_type DEFINITION usages,
          mu_export_count = count_type EXPORT usages,
          mu_import_count = count_type IMPORT usages,
          mu_call_count = count_type CALL usages,
          mu_usages = usages\<rparr>)"

fun criticality_order :: "CriticalityLevel \<Rightarrow> nat" where
  "criticality_order CRITICAL_PATH = 0"
| "criticality_order SECONDARY = 1"
| "criticality_order TERTIARY = 2"
| "criticality_order NON_CRITICAL = 3"

text \<open>
  \<^verbatim>\<open>_categorize_by_module\<close>: the usages are grouped by file in a
  \<^verbatim>\<open>defaultdict(list)\<close>, one module is made per file in first-seen order, and the
  modules are sorted by tier with Python's stable sort (\<open>sort_key\<close> is a stable
  insertion sort).
\<close>

definition report_usages :: "UsageReport \<Rightarrow> UsageLocation list" where
  "report_usages usage_report =
     (case ur_definition usage_report of None \<Rightarrow> [] | Some d \<Rightarrow> [d])
     @ ur_exports usage_report @ ur_imports usage_report
     @ ur_calls usage_report @ ur_tests usage_report"

definition categorize_by_module :: "UsageReport \<Rightarrow> ModuleUsage list" where
  "categorize_by_module usage_report =
     (let modules_by_file =
            fold (\<lambda>usage d. dd_append (ul_file_path usage) usage d)
              (report_usages usage_report) [];
          modules = map (\<lambda>(file_path, usages). create_module_usage file_path usages)
                      modules_by_file
      in sort_key (\<lambda>m. criticality_order (mu_criticality m)) modules)"

text \<open>The body of the counting loop of \<^verbatim>\<open>_calculate_risk_score\<close>.\<close>

definition count_module :: "ModuleUsage \<Rightarrow> RiskScore \<Rightarrow> RiskScore" where
  "count_module m score =
     (let usage_count = mu_total_usages m in
      if mu_criticality m = CRITICAL_PATH then
        score\<lparr>rs_critical_path_usages := rs_critical_path_usages score + usage_count\<rparr>
      else if mu_criticality m = SECONDARY then
        score\<lparr>rs_secondary_usages := rs_secondary_usages score + usage_count\<rparr>
      else if mu_criticality m = TERTIARY then
        score\<lparr>rs_tertiary_usages := rs_tertiary_usages score + usage_count\<rparr>
      else
        score\<lparr>rs_non_critical_usages := rs_non_critical_usages score + usage_count\<rparr>)"

definition calculate_risk_score :: "ModuleUsage list \<Rightarrow> RiskScore" where
  "calculate_risk_score modules = calculate (fold count_module modules new_risk_score)"

definition assess_business_impact ::
  "ImpactReport \<Rightarrow> ModuleUsage list \<Rightarrow> RiskScore \<Rightarrow> ImpactReport" where
  "assess_business_impact report modules risk_score =
     (let critical_modules = filter (\<lambda>m. mu_criticality m = CRITICAL_PATH) modules in
      if critical_modules \<noteq> [] then
        report\<lparr>ir_revenue_impact_low := ''$50K/hour'',
               ir_revenue_impact_high := ''$500K/hour'',
               ir_affected_users := ''ALL users (100% of transactions)'',
               ir_recovery_time := ''3-6 hours''\<rparr>
      else if rs_risk_level risk_score = HIGH then
        report\<lparr>ir_revenue_impact_low := ''$10K/hour'',
               ir_revenue_impact_high := ''$100K/hour'',
               ir_affected_users := ''Many users (30-70% of transactions)'',
               ir_recovery_time := ''1-3 hours''\<rparr>
      else if rs_risk_level risk_score = MEDIUM then
        report\<lparr>ir_revenue_impact_low := ''$1K/hour'',
               ir_revenue_impact_high := ''$20K/hour'',
               ir_affected_users := ''Some users (10-30% of transactions)'',
               ir_recovery_time := ''0.5-2 hours''\<rparr>
      else
        report\<lparr>ir_revenue_impact_low := ''$0/hour'',
               ir_revenue_impact_high := ''$5K/hour'',
               ir_affected_users := ''Few users or developers only'',
               ir_recovery_time := ''0.5-1 hour''\<rparr>)"

text \<open>
  \<^verbatim>\<open>ImpactAnalyzer\<close> holds the analyzer it was given;
  \<^verbatim>\<open>assess_change_impact\<close> is absent exactly when \<^verbatim>\<open>find_all_usages\<close> is.
\<close>

record ImpactAnalyzer =
  ia_analyzer :: CodeAnalyzer

definition assess_change_impact :: "ImpactAnalyzer \<Rightarrow> string \<Rightarrow> string \<Rightarrow> ImpactReport option" where
  "assess_change_impact ia function_name change_description =
     (case find_all_usages (ia_analyzer ia) function_name of
        None \<Rightarrow> None
      | Some usage_report \<Rightarrow>
          (let modules = categorize_by_module usage_report;
               risk_score = calculate_risk_score modules;
               report =
                 \<lparr>ir_function_name = function_name,
                  ir_change_description = change_description,
                  ir_modules = modules,
                  ir_risk_score = risk_score,
                  ir_revenue_impact_low = [],
                  ir_revenue_impact_high = [],
                  ir_affected_users = [],
                  ir_recovery_time = [],
                  ir_total_usages = ur_total_usages usage_report,
                  ir_total_files = int (card (ur_files_affected usage_report))\<rparr>
           in Some (assess_business_impact report modules risk_score)))"

section \<open>Orchestrator (orchestrator.py)\<close>

text \<open>
  The orchestrator's components are \<^verbatim>\<open>None\<close> until \<^verbatim>\<open>build_graph\<close> sets them.
  A query on a missing component raises \<^verbatim>\<open>RuntimeError\<close>; a raise is the \<open>Inl\<close> of the
  result. The risk calculator has no attributes, so its presence is a \<open>unit option\<close>.
  The statistics dictionary and the discovery and parser components, which the queries do
  not read, are left out.
\<close>

datatype error = RuntimeError string

record SemanticGraphOrchestrator =
  repository_path :: string
  o_graph_builder :: "GraphBuilder option"
  o_graph :: "CodeGraph option"
  o_analyzer :: "CodeAnalyzer option"
  o_impact_analyzer :: "ImpactAnalyzer option"
  o_risk_calculator :: "unit option"

text \<open>The state \<^verbatim>\<open>__init__\<close> leaves: the Empty state.\<close>

definition new_orchestrator :: "string \<Rightarrow> SemanticGraphOrchestrator" where
  "new_orchestrator path =
     \<lparr>repository_path = path, o_graph_builder = None, o_graph = None, o_analyzer = None,
      o_impact_analyzer = None, o_risk_calculator = None\<rparr>"

text \<open>
  Steps 3 and 4 of the orchestrator's \<^verbatim>\<open>build_graph\<close>, from the parser's output:
  steps 1 and 2 (discovery and parsing) read the file system and are taken as given.
\<close>

definition orchestrator_build ::
  "(string \<Rightarrow> int \<Rightarrow> string) \<Rightarrow> ParsedFile list \<Rightarrow> SemanticGraphOrchestrator
     \<Rightarrow> SemanticGraphOrchestrator" where
  "orchestrator_build ctx parsed_files orch =
     (let gb = build_graph (new_builder ''json'') parsed_files;
          a = new_analyzer ctx (graph gb)
      in orch\<lparr>o_graph_builder := Some gb,
              o_graph := Some (graph gb),
              o_analyzer := Some a,
              o_impact_analyzer := Some \<lparr>ia_analyzer = a\<rparr>,
              o_risk_calculator := Some ()\<rparr>)"

definition not_built :: error where
  "not_built = RuntimeError ''Graph not built. Call build_graph() first.''"

definition find_usages :: "SemanticGraphOrchestrator \<Rightarrow> string \<Rightarrow> error + UsageReport option" where
  "find_usages orch function_name =
     (case o_analyzer orch of
        None \<Rightarrow> Inl not_built
      | Some a \<Rightarrow> Inr (find_all_usages a function_name))"

definition orch_assess_change_impact ::
  "SemanticGraphOrchestrator \<Rightarrow> string \<Rightarrow> string \<Rightarrow> error + ImpactReport option" where
  "orch_assess_change_impact orch function_name change_description =
     (case o_impact_analyzer orch of
        None \<Rightarrow> Inl not_built
      | Some ia \<Rightarrow> Inr (assess_change_impact ia function_name change_description))"

definition calculate_risk :: "SemanticGraphOrchestrator \<Rightarrow> string \<Rightarrow> string \<Rightarrow> error + RiskAssessment" where
  "calculate_risk orch function_name change_type =
     (case o_risk_calculator orch of
        None \<Rightarrow> Inl not_built
      | Some _ \<Rightarrow> Inr (calculate_failure_modes function_name change_type))"

text \<open>
  The dictionary \<^verbatim>\<open>get_complete_analysis\<close> returns: the one-entry error dictionary for
  an unknown function, or the three reports.
\<close>

datatype CompleteAnalysis =
  FunctionNotFound string
| Analysis string string UsageReport "ImpactReport option" RiskAssessment

definition get_complete_analysis ::
  "SemanticGraphOrchestrator \<Rightarrow> string \<Rightarrow> string \<Rightarrow> error + CompleteAnalysis" where
  "get_complete_analysis orch function_name change_description =
     (case o_analyzer orch of
        None \<Rightarrow> Inl not_built
      | Some _ \<Rightarrow>
          (case find_usages orch function_name of
             Inl e \<Rightarrow> Inl e
           | Inr None \<Rightarrow> Inr (FunctionNotFound (''Function not found: '' @ function_name))
           | Inr (Some usage_report) \<Rightarrow>
               (case orch_assess_change_impact orch function_name change_description of
                  Inl e \<Rightarrow> Inl e
                | Inr impact_report \<Rightarrow>
                    (case calculate_risk orch function_name ''rename'' of
                       Inl e \<Rightarrow> Inl e
                     | Inr risk_assessment \<Rightarrow>
                         Inr (Analysis function_name change_description usage_report
                                impact_report risk_assessment)))))"

section \<open>Example inputs\<close>

text \<open>
  Constructors with the dataclass defaults of \<^verbatim>\<open>FunctionDefinition\<close> and
  \<^verbatim>\<open>FunctionCall\<close>, and a few small parser outputs used to run the model.
\<close>

definition function_definition ::
  "string \<Rightarrow> string \<Rightarrow> int \<Rightarrow> int \<Rightarrow> string list \<Rightarrow> bool \<Rightarrow> FunctionDefinition" where
  "function_definition name file_path line_number end_line parameters is_exported =
     \<lparr>fd_name = name, fd_file_path = file_path, fd_line_number = line_number,
      fd_end_line = end_line, fd_parameters = parameters, fd_is_exported = is_exported,
      fd_is_async = False, fd_decorators = [], fd_docstring = None\<rparr>"

definition function_call :: "string \<Rightarrow> string \<Rightarrow> int \<Rightarrow> string option \<Rightarrow> FunctionCall" where
  "function_call function_name file_path line_number calling_function =
     \<lparr>fc_function_name = function_name, fc_file_path = file_path,
      fc_line_number = line_number, fc_calling_function = calling_function,
      fc_arguments_count = 0\<rparr>"

definition parsed_file ::
  "string \<Rightarrow> FileType \<Rightarrow> FunctionDefinition list \<Rightarrow> FunctionCall list \<Rightarrow> ParsedFile" where
  "parsed_file file_path file_type functions calls =
     \<lparr>pf_file_path = file_path, pf_file_type = file_type, pf_functions = functions,
      pf_calls = calls, pf_imports = [], pf_exports = [], pf_parse_errors = []\<rparr>"

text \<open>
  \<^verbatim>\<open>calc.py\<close> with \<^verbatim>\<open>def a(): pass\<close> on line 1 and \<^verbatim>\<open>def b(): a()\<close> on
  line 2.
\<close>

definition example_calc :: ParsedFile where
  "example_calc =
     parsed_file ''/repo/calc.py'' PYTHON
       [function_definition ''a'' ''/repo/calc.py'' 1 1 [] True,
        function_definition ''b'' ''/repo/calc.py'' 2 2 [] True]
       [function_call ''a'' ''/repo/calc.py'' 2 (Some ''b'')]"

definition no_context :: "string \<Rightarrow> int \<Rightarrow> string" where
  "no_context file_path line_number = []"

definition example_analyzer :: CodeAnalyzer where
  "example_analyzer =
     new_analyzer no_context (graph (build_graph (new_builder ''json'') [example_calc]))"

text \<open>
  \<^verbatim>\<open>app.js\<close> with \<^verbatim>\<open>function foo() {}\<close> on line 1 and
  \<^verbatim>\<open>const x = foo();\<close> on line 2. The parser's \<^verbatim>\<open>_find_containing_function\<close>
  names the declarator of the enclosing \<^verbatim>\<open>lexical_declaration\<close>, so the call site
  carries the calling function \<^verbatim>\<open>x\<close>, which is no function definition.
\<close>

definition example_app_js :: ParsedFile where
  "example_app_js =
     parsed_file ''/repo/app.js'' JAVASCRIPT
       [function_definition ''foo'' ''/repo/app.js'' 1 1 [] False]
       [function_call ''foo'' ''/repo/app.js'' 2 (Some ''x'')]"

text \<open>
  A formatter defined in \<^verbatim>\<open>utils.py\<close> and called from a checkout module, from
  \<^verbatim>\<open>main.py\<close> and from a directory of specs.
\<close>

definition example_fmt_files :: "ParsedFile list" where
  "example_fmt_files =
     [parsed_file ''/repo/utils.py'' PYTHON
        [function_definition ''fmt'' ''/repo/utils.py'' 1 2 [''x''] True] [],
      parsed_file ''/repo/checkout.py'' PYTHON
        [function_definition ''pay'' ''/repo/checkout.py'' 3 9 [] True]
        [function_call ''fmt'' ''/repo/checkout.py'' 4 (Some ''pay''),
         function_call ''fmt'' ''/repo/checkout.py'' 5 (Some ''pay'')],
      parsed_file ''/repo/main.py'' PYTHON []
        [function_call ''fmt'' ''/repo/main.py'' 7 None],
      parsed_file ''/repo/spec/run.py'' PYTHON []
        [function_call ''fmt'' ''/repo/spec/run.py'' 2 None]]"

definition example_fmt_analyzer :: CodeAnalyzer where
  "example_fmt_analyzer =
     new_analyzer no_context (graph (build_graph (new_builder ''json'') example_fmt_files))"

text \<open>
  Three files that each define a function \<^verbatim>\<open>f\<close>; two of them share the stem
  \<^verbatim>\<open>calc\<close>.
\<close>

definition example_dup_files :: "ParsedFile list" where
  "example_dup_files =
     [parsed_file ''/repo/a/calc.py'' PYTHON
        [function_definition ''f'' ''/repo/a/calc.py'' 1 2 [] True] [],
      parsed_file ''/repo/b/calc.py'' PYTHON
        [function_definition ''f'' ''/repo/b/calc.py'' 7 8 [] True] [],
      parsed_file ''/repo/b/other.py'' PYTHON
        [function_definition ''f'' ''/repo/b/other.py'' 3 4 [] True] []]"

text \<open>
  \<^verbatim>\<open>b.py\<close> defines \<^verbatim>\<open>helper\<close> at module level; \<^verbatim>\<open>a.py\<close> defines a
  \<^verbatim>\<open>helper\<close> nested in \<^verbatim>\<open>outer\<close>, which the parser marks as not exported.
\<close>

definition example_helper_files :: "ParsedFile list" where
  "example_helper_files =
     [parsed_file ''/repo/b.py'' PYTHON
        [function_definition ''helper'' ''/repo/b.py'' 1 3 [] True,
         function_definition ''util'' ''/repo/b.py'' 5 6 [] True,
         function_definition ''main'' ''/repo/b.py'' 9 11 [] True]
        [function_call ''util'' ''/repo/b.py'' 2 (Some ''helper''),
         function_call ''helper'' ''/repo/b.py'' 10 (Some ''main'')],
      parsed_file ''/repo/a.py'' PYTHON
        [function_definition ''outer'' ''/repo/a.py'' 1 5 [] True,
         function_definition ''helper'' ''/repo/a.py'' 2 3 [] False]
        [function_call ''helper'' ''/repo/a.py'' 4 (Some ''outer'')]]"

definition example_helper_analyzer :: CodeAnalyzer where
  "example_helper_analyzer =
     new_analyzer no_context (graph (build_graph (new_builder ''json'') example_helper_files))"

definition example_app_analyzer :: CodeAnalyzer where
  "example_app_analyzer =
     new_analyzer no_context (graph (build_graph (new_builder ''json'') [example_app_js]))"

section \<open>Auxiliary notions for the proofs\<close>

text \<open>
  \<open>reverse_node_update edge k n\<close> is what one step of the reverse pass does to the node
  stored under \<open>k\<close>; \<open>build_edges\<close> is \<open>build_graph\<close> up to and including its fifth pass;
  \<open>builder_inv\<close> is the invariant of those passes: every node is stored under its own
  identifier with empty reverse lists, the name table points at stored nodes, and every
  edge targets a stored node.
\<close>

definition reverse_node_update :: "GraphEdge \<Rightarrow> string \<Rightarrow> GraphNode \<Rightarrow> GraphNode" where
  "reverse_node_update edge k n =
     (if ge_target_id edge \<noteq> k then n
      else if ge_edge_type edge = CALLS then
        (if ge_source_id edge \<notin> set (gn_called_by n)
         then n\<lparr>gn_called_by := gn_called_by n @ [ge_source_id edge]\<rparr> else n)
      else if ge_edge_type edge = IMPORTS then
        (if ge_file_path edge \<notin> set (gn_imported_in n)
         then n\<lparr>gn_imported_in := gn_imported_in n @ [ge_file_path edge]\<rparr> else n)
      else n)"

definition builder_inv :: "GraphBuilder \<Rightarrow> bool" where
  "builder_inv b \<longleftrightarrow>
     (\<forall>k n. get_node (graph b) k = Some n \<longrightarrow>
        gn_id n = k \<and> gn_called_by n = [] \<and> gn_imported_in n = [])
     \<and> (\<forall>f i. map_of (function_map b) f = Some i \<longrightarrow> get_node (graph b) i \<noteq> None)
     \<and> (\<forall>e \<in> set (edges (graph b)). get_node (graph b) (ge_target_id e) \<noteq> None)"

definition build_edges :: "GraphBuilder \<Rightarrow> ParsedFile list \<Rightarrow> GraphBuilder" where
  "build_edges b parsed_files =
     fold create_export_edges parsed_files
       (fold create_import_edges parsed_files
          (fold create_call_edges parsed_files
             (fold create_function_nodes parsed_files
                (fold create_file_node parsed_files b))))"

text \<open>
  \<open>tier_usages t modules\<close> is the sum of the usage counts of the modules of tier \<open>t\<close>.
  \<open>function_id\<close> is the node identifier of a definition, \<open>last_def key k defs\<close> the last
  definition in \<open>defs\<close> whose key is \<open>k\<close>, \<open>node_core\<close> a node without its relationship
  lists, and \<open>same_core b b'\<close> says that two builder states agree on the name table, the
  function counter and the nodes up to relationship lists.
\<close>

definition tier_usages :: "CriticalityLevel \<Rightarrow> ModuleUsage list \<Rightarrow> int" where
  "tier_usages t modules =
     sum_list (map mu_total_usages (filter (\<lambda>m. mu_criticality m = t) modules))"

definition function_id :: "FunctionDefinition \<Rightarrow> string" where
  "function_id func_def = make_function_id (fd_file_path func_def) (fd_name func_def)"

definition last_def ::
  "(FunctionDefinition \<Rightarrow> string) \<Rightarrow> string \<Rightarrow> FunctionDefinition list \<Rightarrow> FunctionDefinition option" where
  "last_def key k defs = find (\<lambda>d. key d = k) (rev defs)"

definition node_core :: "GraphNode \<Rightarrow> GraphNode" where
  "node_core n = n\<lparr>gn_calls := [], gn_called_by := [], gn_imported_in := []\<rparr>"

definition same_core :: "GraphBuilder \<Rightarrow> GraphBuilder \<Rightarrow> bool" where
  "same_core b b' \<longleftrightarrow>
     function_map b' = function_map b
     \<and> total_functions (graph b') = total_functions (graph b)
     \<and> (\<forall>i. map_option node_core (get_node (graph b') i)
              = map_option node_core (get_node (graph b) i))"

section \<open>Graph builder: invariant of the passes\<close>

lemma nodes_add_node [simp]: "nodes (add_node g n) = AList.update (gn_id n) n (nodes g)"
  by (simp add: add_node_def)

lemma edges_add_node [simp]: "edges (add_node g n) = edges g"
  by (simp add: add_node_def)

lemma nodes_add_edge [simp]: "nodes (add_edge g e) = nodes g"
  by (simp add: add_edge_def)

lemma edges_add_edge [simp]: "edges (add_edge g e) = edges g @ [e]"
  by (simp add: add_edge_def)

lemma get_node_add_node [simp]:
  "get_node (add_node g n) k = (if k = gn_id n then Some n else get_node g k)"
  by (simp add: get_node_def update_conv')

lemma get_node_add_edge [simp]: "get_node (add_edge g e) k = get_node g k"
  by (simp add: get_node_def)

lemma get_node_nodes_update [simp]:
  "get_node (g\<lparr>nodes := ns\<rparr>) k = map_of ns k"
  by (simp add: get_node_def)

lemma builder_invI:
  assumes "\<And>k n. get_node (graph b) k = Some n \<Longrightarrow>
             gn_id n = k \<and> gn_called_by n = [] \<and> gn_imported_in n = []"
    and "\<And>f i. map_of (function_map b) f = Some i \<Longrightarrow> get_node (graph b) i \<noteq> None"
    and "\<And>e. e \<in> set (edges (graph b)) \<Longrightarrow> get_node (graph b) (ge_target_id e) \<noteq> None"
  shows "builder_inv b"
  using assms unfolding builder_inv_def by blast

lemma builder_inv_node:
  "builder_inv b \<Longrightarrow> get_node (graph b) k = Some n \<Longrightarrow>
     gn_id n = k \<and> gn_called_by n = [] \<and> gn_imported_in n = []"
  unfolding builder_inv_def by blast

lemma builder_inv_map:
  "builder_inv b \<Longrightarrow> map_of (function_map b) f = Some i \<Longrightarrow> get_node (graph b) i \<noteq> None"
  unfolding builder_inv_def by blast

lemma builder_inv_edge:
  "builder_inv b \<Longrightarrow> e \<in> set (edges (graph b)) \<Longrightarrow> get_node (graph b) (ge_target_id e) \<noteq> None"
  unfolding builder_inv_def by blast

lemma builder_inv_new: "builder_inv (new_builder st)"
  by (rule builder_invI) (simp_all add: new_builder_def empty_graph_def get_node_def)

lemma graph_create_file_node [simp]:
  "graph (create_file_node pf b) = add_node (graph b) (file_node pf)"
  "function_map (create_file_node pf b) = function_map b"
  by (simp_all add: create_file_node_def)

lemma file_node_fields [simp]:
  "gn_id (file_node pf) = make_file_id (pf_file_path pf)"
  "gn_called_by (file_node pf) = []"
  "gn_imported_in (file_node pf) = []"
  by (simp_all add: file_node_def)

lemma function_node_fields [simp]:
  "gn_id (function_node fd) = make_function_id (fd_file_path fd) (fd_name fd)"
  "gn_called_by (function_node fd) = []"
  "gn_imported_in (function_node fd) = []"
  by (simp_all add: function_node_def)

lemma defines_edge_target [simp]:
  "ge_target_id (defines_edge fd) = make_function_id (fd_file_path fd) (fd_name fd)"
  by (simp add: defines_edge_def Let_def)

lemma builder_inv_create_file_node:
  assumes "builder_inv b" shows "builder_inv (create_file_node pf b)"
proof (rule builder_invI)
  fix k n assume "get_node (graph (create_file_node pf b)) k = Some n"
  then show "gn_id n = k \<and> gn_called_by n = [] \<and> gn_imported_in n = []"
    using builder_inv_node[OF assms, of k n] by (auto split: if_splits)
next
  fix f i assume "map_of (function_map (create_file_node pf b)) f = Some i"
  then show "get_node (graph (create_file_node pf b)) i \<noteq> None"
    using builder_inv_map[OF assms, of f i] by simp
next
  fix e assume "e \<in> set (edges (graph (create_file_node pf b)))"
  then show "get_node (graph (create_file_node pf b)) (ge_target_id e) \<noteq> None"
    using builder_inv_edge[OF assms, of e] by simp
qed

lemma graph_create_function_node [simp]:
  "graph (create_function_node fd b) =
     add_edge (add_node (graph b) (function_node fd)) (defines_edge fd)"
  "function_map (create_function_node fd b) =
     AList.update (fd_name fd) (make_function_id (fd_file_path fd) (fd_name fd)) (function_map b)"
  by (simp_all add: create_function_node_def)

lemma builder_inv_create_function_node:
  assumes "builder_inv b" shows "builder_inv (create_function_node fd b)"
proof (rule builder_invI)
  fix k n assume "get_node (graph (create_function_node fd b)) k = Some n"
  then show "gn_id n = k \<and> gn_called_by n = [] \<and> gn_imported_in n = []"
    using builder_inv_node[OF assms, of k n] by (auto split: if_splits)
next
  fix f i assume "map_of (function_map (create_function_node fd b)) f = Some i"
  then show "get_node (graph (create_function_node fd b)) i \<noteq> None"
    using builder_inv_map[OF assms, of f i] by (simp add: update_conv' split: if_splits)
next
  fix e assume "e \<in> set (edges (graph (create_function_node fd b)))"
  then show "get_node (graph (create_function_node fd b)) (ge_target_id e) \<noteq> None"
    using builder_inv_edge[OF assms, of e] by auto
qed

lemma builder_inv_create_function_nodes:
  "builder_inv b \<Longrightarrow> builder_inv (create_function_nodes pf b)"
  unfolding create_function_nodes_def
  by (rule fold_invariant[where Q = "\<lambda>_. True"]) (simp_all add: builder_inv_create_function_node)

lemma resolve_function_id_Some:
  assumes "builder_inv b" and "resolve_function_id b f p = Some t"
  shows "get_node (graph b) t \<noteq> None"
proof (cases "get_node (graph b) (make_function_id p f) \<noteq> None")
  case True
  with assms(2) show ?thesis by (simp add: resolve_function_id_def Let_def)
next
  case False
  with assms(2) have "map_of (function_map b) f = Some t"
    by (simp add: resolve_function_id_def Let_def)
  then show ?thesis by (rule builder_inv_map[OF assms(1)])
qed

lemma create_call_edge_cases:
  "create_call_edge c b = b \<or>
   (\<exists>t. resolve_function_id b (fc_function_name c) (fc_file_path c) = Some t \<and>
     (create_call_edge c b = b\<lparr>graph := add_edge (graph b) (calls_edge c (call_source_id c) t)\<rparr>
      \<or> (\<exists>n. get_node (graph b) (call_source_id c) = Some n \<and>
            create_call_edge c b =
              b\<lparr>graph := (add_edge (graph b) (calls_edge c (call_source_id c) t))
                   \<lparr>nodes := AList.update (call_source_id c) (n\<lparr>gn_calls := gn_calls n @ [t]\<rparr>)
                       (nodes (graph b))\<rparr>\<rparr>)))"
  by (simp add: create_call_edge_def Let_def split: option.splits)

lemma calls_edge_fields [simp]:
  "ge_target_id (calls_edge c s t) = t"
  "ge_source_id (calls_edge c s t) = s"
  "ge_edge_type (calls_edge c s t) = CALLS"
  by (simp_all add: calls_edge_def)

lemma builder_inv_add_edge:
  assumes "builder_inv b" and "get_node (graph b) (ge_target_id e) \<noteq> None"
  shows "builder_inv (b\<lparr>graph := add_edge (graph b) e\<rparr>)"
proof (rule builder_invI)
  fix k n assume "get_node (graph (b\<lparr>graph := add_edge (graph b) e\<rparr>)) k = Some n"
  then show "gn_id n = k \<and> gn_called_by n = [] \<and> gn_imported_in n = []"
    using builder_inv_node[OF assms(1), of k n] by simp
next
  fix f i assume "map_of (function_map (b\<lparr>graph := add_edge (graph b) e\<rparr>)) f = Some i"
  then show "get_node (graph (b\<lparr>graph := add_edge (graph b) e\<rparr>)) i \<noteq> None"
    using builder_inv_map[OF assms(1), of f i] by simp
next
  fix e' assume "e' \<in> set (edges (graph (b\<lparr>graph := add_edge (graph b) e\<rparr>)))"
  then show "get_node (graph (b\<lparr>graph := add_edge (graph b) e\<rparr>)) (ge_target_id e') \<noteq> None"
    using builder_inv_edge[OF assms(1), of e'] assms(2) by auto
qed

lemma builder_inv_update_calls:
  assumes "builder_inv b" and "get_node (graph b) s = Some n"
  shows "builder_inv (b\<lparr>graph := (graph b)\<lparr>nodes :=
            AList.update s (n\<lparr>gn_calls := cs\<rparr>) (nodes (graph b))\<rparr>\<rparr>)"
    (is "builder_inv ?b'")
proof (rule builder_invI)
  fix k m assume "get_node (graph ?b') k = Some m"
  then show "gn_id m = k \<and> gn_called_by m = [] \<and> gn_imported_in m = []"
    using builder_inv_node[OF assms(1), of k m] builder_inv_node[OF assms(1) assms(2)]
    by (auto simp: update_conv' get_node_def split: if_splits)
next
  fix f i assume "map_of (function_map ?b') f = Some i"
  then show "get_node (graph ?b') i \<noteq> None"
    using builder_inv_map[OF assms(1), of f i]
    by (simp add: update_conv' get_node_def)
next
  fix e assume "e \<in> set (edges (graph ?b'))"
  then show "get_node (graph ?b') (ge_target_id e) \<noteq> None"
    using builder_inv_edge[OF assms(1), of e]
    by (simp add: update_conv' get_node_def)
qed

lemma builder_inv_create_call_edge:
  assumes "builder_inv b" shows "builder_inv (create_call_edge c b)"
proof -
  consider "create_call_edge c b = b"
    | t where "resolve_function_id b (fc_function_name c) (fc_file_path c) = Some t"
        "create_call_edge c b = b\<lparr>graph := add_edge (graph b) (calls_edge c (call_source_id c) t)\<rparr>"
    | t n where "resolve_function_id b (fc_function_name c) (fc_file_path c) = Some t"
        "get_node (graph b) (call_source_id c) = Some n"
        "create_call_edge c b =
              b\<lparr>graph := (add_edge (graph b) (calls_edge c (call_source_id c) t))
                   \<lparr>nodes := AList.update (call_source_id c) (n\<lparr>gn_calls := gn_calls n @ [t]\<rparr>)
                       (nodes (graph b))\<rparr>\<rparr>"
    using create_call_edge_cases[of c b] by blast
  then show ?thesis
  proof cases
    case 1
    then show ?thesis using assms by simp
  next
    case 2
    have "get_node (graph b) (ge_target_id (calls_edge c (call_source_id c) t)) \<noteq> None"
      using resolve_function_id_Some[OF assms 2(1)] by simp
    from builder_inv_add_edge[OF assms this] show ?thesis unfolding 2(2) .
  next
    case 3
    let ?b1 = "b\<lparr>graph := add_edge (graph b) (calls_edge c (call_source_id c) t)\<rparr>"
    have "get_node (graph b) (ge_target_id (calls_edge c (call_source_id c) t)) \<noteq> None"
      using resolve_function_id_Some[OF assms 3(1)] by simp
    from builder_inv_add_edge[OF assms this] have 1: "builder_inv ?b1" .
    have 2: "get_node (graph ?b1) (call_source_id c) = Some n" using 3(2) by simp
    from builder_inv_update_calls[OF 1 2, of "gn_calls n @ [t]"] show ?thesis
      unfolding 3(3) by simp
  qed
qed

lemma builder_inv_create_call_edges:
  "builder_inv b \<Longrightarrow> builder_inv (create_call_edges pf b)"
  unfolding create_call_edges_def
  by (rule fold_invariant[where Q = "\<lambda>_. True"]) (simp_all add: builder_inv_create_call_edge)

lemma imports_edge_fields [simp]:
  "ge_target_id (imports_edge pf imp t) = t"
  "ge_source_id (imports_edge pf imp t) = make_file_id (pf_file_path pf)"
  "ge_edge_type (imports_edge pf imp t) = IMPORTS"
  by (simp_all add: imports_edge_def Let_def)

lemma exports_edge_fields [simp]:
  "ge_target_id (exports_edge pf ex t) = t"
  "ge_source_id (exports_edge pf ex t) = make_file_id (pf_file_path pf)"
  "ge_edge_type (exports_edge pf ex t) = EXPORTS"
  by (simp_all add: exports_edge_def Let_def)

lemma builder_inv_create_import_edge:
  assumes "builder_inv b" shows "builder_inv (create_import_edge pf imp n b)"
proof (cases "map_of (function_map b) n")
  case None
  then show ?thesis using assms
    by (simp add: create_import_edge_def resolve_imported_function_def)
next
  case (Some t)
  have "get_node (graph b) (ge_target_id (imports_edge pf imp t)) \<noteq> None"
    using builder_inv_map[OF assms Some] by simp
  from builder_inv_add_edge[OF assms this] show ?thesis using assms Some
    by (simp add: create_import_edge_def resolve_imported_function_def)
qed

lemma builder_inv_create_import_edges:
  "builder_inv b \<Longrightarrow> builder_inv (create_import_edges pf b)"
  unfolding create_import_edges_def
  by (rule fold_invariant[where Q = "\<lambda>_. True"], simp, assumption,
      rule fold_invariant[where Q = "\<lambda>_. True"]) (simp_all add: builder_inv_create_import_edge)

lemma builder_inv_create_export_edge:
  assumes "builder_inv b" shows "builder_inv (create_export_edge pf ex n b)"
proof (cases "get_node (graph b) (make_function_id (pf_file_path pf) n) \<noteq> None")
  case False
  then show ?thesis using assms by (simp add: create_export_edge_def Let_def)
next
  case True
  then have "get_node (graph b)
      (ge_target_id (exports_edge pf ex (make_function_id (pf_file_path pf) n))) \<noteq> None"
    by simp
  from builder_inv_add_edge[OF assms this] show ?thesis using True
    by (simp add: create_export_edge_def Let_def)
qed

lemma builder_inv_create_export_edges:
  "builder_inv b \<Longrightarrow> builder_inv (create_export_edges pf b)"
  unfolding create_export_edges_def
  by (rule fold_invariant[where Q = "\<lambda>_. True"], simp, assumption,
      rule fold_invariant[where Q = "\<lambda>_. True"]) (simp_all add: builder_inv_create_export_edge)

lemma build_graph_build_edges:
  "build_graph b pfs = (build_edges b pfs)\<lparr>graph := build_reverse_relationships (graph (build_edges b pfs))\<rparr>"
  by (simp add: build_graph_def build_edges_def Let_def)

lemma fold_preserves:
  assumes "\<And>x s. P s \<Longrightarrow> P (f x s)" and "P s"
  shows "P (fold f xs s)"
  using assms(2) by (induction xs arbitrary: s) (simp_all add: assms(1))

lemma builder_inv_build_edges:
  assumes "builder_inv b" shows "builder_inv (build_edges b pfs)"
proof -
  have 1: "builder_inv (fold create_file_node pfs b)"
    using builder_inv_create_file_node assms by (rule fold_preserves)
  have 2: "builder_inv (fold create_function_nodes pfs (fold create_file_node pfs b))"
    using builder_inv_create_function_nodes 1 by (rule fold_preserves)
  have 3: "builder_inv (fold create_call_edges pfs
             (fold create_function_nodes pfs (fold create_file_node pfs b)))"
    using builder_inv_create_call_edges 2 by (rule fold_preserves)
  have 4: "builder_inv (fold create_import_edges pfs (fold create_call_edges pfs
             (fold create_function_nodes pfs (fold create_file_node pfs b))))"
    using builder_inv_create_import_edges 3 by (rule fold_preserves)
  show ?thesis
    unfolding build_edges_def
    using builder_inv_create_export_edges 4 by (rule fold_preserves)
qed

lemma reverse_node_update_other:
  "ge_target_id e \<noteq> k \<Longrightarrow> reverse_node_update e k n = n"
  by (simp add: reverse_node_update_def)

lemma reverse_step_target:
  assumes g: "get_node g (ge_target_id e) = Some n"
  shows "get_node (reverse_step e g) (ge_target_id e)
           = Some (reverse_node_update e (ge_target_id e) n)"
proof (cases "ge_edge_type e = CALLS")
  case True
  show ?thesis
  proof (cases "ge_source_id e \<in> set (gn_called_by n)")
    case in_list: True
    have "reverse_step e g = g" by (simp add: reverse_step_def True g in_list)
    moreover have "reverse_node_update e (ge_target_id e) n = n"
      by (simp add: reverse_node_update_def True in_list)
    ultimately show ?thesis by (simp add: g)
  next
    case new: False
    have "reverse_step e g = g\<lparr>nodes := AList.update (ge_target_id e)
             (n\<lparr>gn_called_by := gn_called_by n @ [ge_source_id e]\<rparr>) (nodes g)\<rparr>"
      by (simp add: reverse_step_def True g new)
    moreover have "reverse_node_update e (ge_target_id e) n
        = n\<lparr>gn_called_by := gn_called_by n @ [ge_source_id e]\<rparr>"
      by (simp add: reverse_node_update_def True new)
    ultimately show ?thesis by (simp add: update_conv')
  qed
next
  case nc: False
  show ?thesis
  proof (cases "ge_edge_type e = IMPORTS")
    case True
    show ?thesis
    proof (cases "ge_file_path e \<in> set (gn_imported_in n)")
      case in_list: True
      have "reverse_step e g = g" by (simp add: reverse_step_def True g in_list)
      moreover have "reverse_node_update e (ge_target_id e) n = n"
        by (simp add: reverse_node_update_def True in_list)
      ultimately show ?thesis by (simp add: g)
    next
      case new: False
      have "reverse_step e g = g\<lparr>nodes := AList.update (ge_target_id e)
               (n\<lparr>gn_imported_in := gn_imported_in n @ [ge_file_path e]\<rparr>) (nodes g)\<rparr>"
        by (simp add: reverse_step_def True g new)
      moreover have "reverse_node_update e (ge_target_id e) n
          = n\<lparr>gn_imported_in := gn_imported_in n @ [ge_file_path e]\<rparr>"
        by (simp add: reverse_node_update_def True new)
      ultimately show ?thesis by (simp add: update_conv')
    qed
  next
    case False
    have "reverse_step e g = g" by (simp add: reverse_step_def nc False)
    moreover have "reverse_node_update e (ge_target_id e) n = n"
      by (simp add: reverse_node_update_def nc False)
    ultimately show ?thesis by (simp add: g)
  qed
qed

lemma reverse_step_cases:
  "reverse_step e g = g \<or> (\<exists>n. reverse_step e g = g\<lparr>nodes := AList.update (ge_target_id e) n (nodes g)\<rparr>)"
proof (cases "get_node g (ge_target_id e)")
  case None
  then show ?thesis by (simp add: reverse_step_def)
next
  case (Some n)
  show ?thesis
    unfolding reverse_step_def Some option.case
    by (cases "ge_edge_type e = CALLS"; cases "ge_edge_type e = IMPORTS";
        cases "ge_source_id e \<in> set (gn_called_by n)";
        cases "ge_file_path e \<in> set (gn_imported_in n)") (simp_all, blast+)
qed

lemma reverse_step_other:
  assumes "k \<noteq> ge_target_id e"
  shows "get_node (reverse_step e g) k = get_node g k"
  using reverse_step_cases[of e g] assms
  by (auto simp: update_conv' get_node_def)

lemma reverse_step_None:
  assumes "get_node g (ge_target_id e) = None"
  shows "reverse_step e g = g"
  using assms by (simp add: reverse_step_def)

lemma get_node_reverse_step:
  "get_node (reverse_step e g) k = map_option (reverse_node_update e k) (get_node g k)"
proof (cases "k = ge_target_id e")
  case True
  show ?thesis
  proof (cases "get_node g k")
    case None
    then show ?thesis using True reverse_step_None[of g e] by simp
  next
    case (Some n)
    then show ?thesis using True reverse_step_target[of g e n] by simp
  qed
next
  case False
  then show ?thesis
    by (cases "get_node g k") (simp_all add: reverse_step_other reverse_node_update_other)
qed

lemma edges_reverse_step [simp]: "edges (reverse_step e g) = edges g"
  by (simp add: reverse_step_def split: option.splits)

lemma edges_fold_reverse_step [simp]: "edges (fold reverse_step es g) = edges g"
  by (induction es arbitrary: g) simp_all

lemma get_node_fold_reverse_step:
  "get_node (fold reverse_step es g) k =
     map_option (fold (\<lambda>e. reverse_node_update e k) es) (get_node g k)"
proof (induction es arbitrary: g)
  case Nil
  show ?case by (cases "get_node g k") simp_all
next
  case (Cons e es)
  show ?case by (cases "get_node g k") (simp_all add: Cons get_node_reverse_step)
qed

lemma called_by_fold_update:
  "set (gn_called_by (fold (\<lambda>e. reverse_node_update e k) es n)) =
     set (gn_called_by n) \<union>
     {ge_source_id e | e. e \<in> set es \<and> ge_edge_type e = CALLS \<and> ge_target_id e = k}"
  by (induction es arbitrary: n) (auto simp: reverse_node_update_def)

lemma gn_id_fold_update [simp]:
  "gn_id (fold (\<lambda>e. reverse_node_update e k) es n) = gn_id n"
  by (induction es arbitrary: n) (auto simp: reverse_node_update_def)

lemma edge_targets_resolve:
  assumes "e \<in> set (edges (graph (build_graph (new_builder st) pfs)))"
  shows "get_node (graph (build_graph (new_builder st) pfs)) (ge_target_id e) \<noteq> None"
proof -
  let ?b = "build_edges (new_builder st) pfs"
  have inv: "builder_inv ?b" by (rule builder_inv_build_edges[OF builder_inv_new])
  have e: "e \<in> set (edges (graph ?b))"
    using assms by (simp add: build_graph_build_edges build_reverse_relationships_def)
  from builder_inv_edge[OF inv e] show ?thesis
    by (simp add: build_graph_build_edges build_reverse_relationships_def
          get_node_fold_reverse_step)
qed

section \<open>Graph builder: which definition is kept\<close>

lemma last_def_Nil [simp]: "last_def key k [] = None"
  by (simp add: last_def_def)

lemma last_def_snoc:
  "last_def key k (ds @ [d]) = (if key d = k then Some d else last_def key k ds)"
  by (simp add: last_def_def)

lemma fold_create_function_nodes:
  "fold create_function_nodes pfs b = fold create_function_node (concat (map pf_functions pfs)) b"
  by (induction pfs arbitrary: b) (simp_all add: create_function_nodes_def)

lemma function_map_fold_create_function_node:
  "map_of (function_map (fold create_function_node ds b)) name
     = (case last_def fd_name name ds of
          Some d \<Rightarrow> Some (function_id d)
        | None \<Rightarrow> map_of (function_map b) name)"
proof (induction ds rule: rev_induct)
  case Nil
  show ?case by simp
next
  case (snoc d ds)
  show ?case
    by (simp add: snoc last_def_snoc update_conv' function_id_def)
qed

lemma get_node_fold_create_function_node:
  "get_node (graph (fold create_function_node ds b)) i
     = (case last_def function_id i ds of
          Some d \<Rightarrow> Some (function_node d)
        | None \<Rightarrow> get_node (graph b) i)"
proof (induction ds rule: rev_induct)
  case Nil
  show ?case by simp
next
  case (snoc d ds)
  show ?case
    by (simp add: snoc last_def_snoc function_id_def)
qed

lemma total_functions_add_edge [simp]: "total_functions (add_edge g e) = total_functions g"
  by (simp add: add_edge_def)

lemma total_functions_fold_create_function_node:
  "total_functions (graph (fold create_function_node ds b))
     = total_functions (graph b) + int (length ds)"
proof (induction ds rule: rev_induct)
  case Nil
  show ?case by simp
next
  case (snoc d ds)
  show ?case
    by (simp add: snoc add_node_def function_node_def)
qed

lemma fold_create_file_node_new:
  "function_map (fold create_file_node pfs (new_builder st)) = []
   \<and> total_functions (graph (fold create_file_node pfs (new_builder st))) = 0"
  by (rule fold_preserves[where P = "\<lambda>b. function_map b = [] \<and> total_functions (graph b) = 0"])
     (simp_all add: new_builder_def empty_graph_def add_node_def file_node_def)

lemma same_core_refl: "same_core b b"
  by (simp add: same_core_def)

lemma same_core_trans: "same_core a b \<Longrightarrow> same_core b c \<Longrightarrow> same_core a c"
  by (simp add: same_core_def)

lemma same_core_add_edge: "same_core b (b\<lparr>graph := add_edge (graph b) e\<rparr>)"
  by (simp add: same_core_def)

lemma node_core_calls [simp]: "node_core (n\<lparr>gn_calls := cs\<rparr>) = node_core n"
  by (simp add: node_core_def)

lemma same_core_update_calls:
  assumes "get_node (graph b) s = Some n"
  shows "same_core b (b\<lparr>graph := (add_edge (graph b) e)
            \<lparr>nodes := AList.update s (n\<lparr>gn_calls := cs\<rparr>) (nodes (graph b))\<rparr>\<rparr>)"
  using assms by (simp add: same_core_def update_conv' get_node_def add_edge_def)

lemma same_core_create_call_edge: "same_core b (create_call_edge c b)"
  using create_call_edge_cases[of c b]
  by (auto simp: same_core_refl intro: same_core_add_edge same_core_update_calls)

lemma same_core_create_import_edge: "same_core b (create_import_edge pf imp n b)"
  by (simp add: create_import_edge_def same_core_refl same_core_add_edge split: option.splits)

lemma same_core_create_export_edge: "same_core b (create_export_edge pf ex n b)"
  by (simp add: create_export_edge_def Let_def same_core_refl same_core_add_edge)

lemma same_core_fold:
  assumes "\<And>x s. same_core s (f x s)"
  shows "same_core b (fold f xs b)"
  by (rule fold_preserves[where P = "same_core b"])
     (blast intro: same_core_trans assms same_core_refl)+

lemma same_core_create_call_edges: "same_core b (create_call_edges pf b)"
  unfolding create_call_edges_def by (rule same_core_fold) (rule same_core_create_call_edge)

lemma same_core_create_import_edges: "same_core b (create_import_edges pf b)"
  unfolding create_import_edges_def
  by (rule same_core_fold, rule same_core_fold) (rule same_core_create_import_edge)

lemma same_core_create_export_edges: "same_core b (create_export_edges pf b)"
  unfolding create_export_edges_def
  by (rule same_core_fold, rule same_core_fold) (rule same_core_create_export_edge)

lemma total_functions_reverse_step [simp]:
  "total_functions (reverse_step e g) = total_functions g"
  using reverse_step_cases[of e g] by auto

lemma total_functions_fold_reverse_step [simp]:
  "total_functions (fold reverse_step es g) = total_functions g"
  by (induction es arbitrary: g) simp_all

lemma node_core_reverse_node_update [simp]:
  "node_core (reverse_node_update e k n) = node_core n"
  by (simp add: reverse_node_update_def node_core_def)

lemma node_core_fold_reverse_node_update [simp]:
  "node_core (fold (\<lambda>e. reverse_node_update e k) es n) = node_core n"
  by (induction es arbitrary: n) simp_all

lemma same_core_reverse:
  "same_core b (b\<lparr>graph := build_reverse_relationships (graph b)\<rparr>)"
proof -
  have "map_option node_core (get_node (fold reverse_step (edges (graph b)) (graph b)) i)
          = map_option node_core (get_node (graph b) i)" for i
    by (cases "get_node (graph b) i") (simp_all add: get_node_fold_reverse_step)
  then show ?thesis
    by (simp add: same_core_def build_reverse_relationships_def)
qed

lemma same_core_build_graph:
  "same_core (fold create_function_nodes pfs (fold create_file_node pfs b)) (build_graph b pfs)"
proof -
  let ?b2 = "fold create_function_nodes pfs (fold create_file_node pfs b)"
  let ?b3 = "fold create_call_edges pfs ?b2"
  let ?b4 = "fold create_import_edges pfs ?b3"
  let ?b5 = "fold create_export_edges pfs ?b4"
  have 3: "same_core ?b2 ?b3" by (rule same_core_fold) (rule same_core_create_call_edges)
  have 4: "same_core ?b3 ?b4" by (rule same_core_fold) (rule same_core_create_import_edges)
  have 5: "same_core ?b4 ?b5" by (rule same_core_fold) (rule same_core_create_export_edges)
  have 6: "same_core ?b5 (?b5\<lparr>graph := build_reverse_relationships (graph ?b5)\<rparr>)"
    by (rule same_core_reverse)
  have "build_graph b pfs = ?b5\<lparr>graph := build_reverse_relationships (graph ?b5)\<rparr>"
    by (simp add: build_graph_def Let_def)
  with same_core_trans[OF same_core_trans[OF same_core_trans[OF 3 4] 5] 6] show ?thesis
    by simp
qed

lemma node_core_function_node [simp]: "node_core (function_node d) = function_node d"
  by (simp add: node_core_def function_node_def)

section \<open>Usage index and usage reports\<close>

lemma categorize_usage_fields:
  "ur_definition (categorize_usage u r)
     = (if ul_usage_type u = DEFINITION then Some u else ur_definition r)"
  "ur_exports (categorize_usage u r)
     = (if ul_usage_type u = EXPORT then ur_exports r @ [u] else ur_exports r)"
  "ur_imports (categorize_usage u r)
     = (if ul_usage_type u = IMPORT then ur_imports r @ [u] else ur_imports r)"
  "ur_calls (categorize_usage u r)
     = (if ul_usage_type u = CALL then ur_calls r @ [u] else ur_calls r)"
  "ur_tests (categorize_usage u r)
     = (if ul_usage_type u = TEST then ur_tests r @ [u] else ur_tests r)"
  by (cases "ul_usage_type u"; simp add: categorize_usage_def Let_def)+

lemma count_type_Cons:
  "count_type t (u # us) = (if ul_usage_type u = t then 1 else 0) + count_type t us"
  by (simp add: count_type_def)

lemma count_type_Nil [simp]: "count_type t [] = 0"
  by (simp add: count_type_def)

lemma count_type_nonneg: "0 \<le> count_type t us"
  by (simp add: count_type_def)

lemma fold_categorize_usage:
  "int (length (ur_exports (fold categorize_usage us r)))
     = int (length (ur_exports r)) + count_type EXPORT us
   \<and> int (length (ur_imports (fold categorize_usage us r)))
     = int (length (ur_imports r)) + count_type IMPORT us
   \<and> int (length (ur_calls (fold categorize_usage us r)))
     = int (length (ur_calls r)) + count_type CALL us
   \<and> int (length (ur_tests (fold categorize_usage us r)))
     = int (length (ur_tests r)) + count_type TEST us
   \<and> (ur_definition (fold categorize_usage us r) = None
        \<longleftrightarrow> ur_definition r = None \<and> count_type DEFINITION us = 0)"
proof (induction us arbitrary: r)
  case Nil
  show ?case by simp
next
  case (Cons u us)
  show ?case
    using Cons[of "categorize_usage u r"] count_type_nonneg[of DEFINITION us]
    by (simp add: categorize_usage_fields count_type_Cons)
qed

lemma count_type_partition:
  "int (length us) = count_type DEFINITION us + count_type EXPORT us + count_type IMPORT us
                     + count_type CALL us + count_type TEST us"
proof (induction us)
  case Nil
  show ?case by simp
next
  case (Cons u us)
  then show ?case by (cases "ul_usage_type u") (simp_all add: count_type_Cons)
qed

lemma count_type_append: "count_type t (xs @ ys) = count_type t xs + count_type t ys"
  by (simp add: count_type_def)

lemma count_definition_edge_usage:
  "t \<noteq> DEFINITION \<Longrightarrow> count_type DEFINITION (map (edge_usage ctx t) es) = 0"
  by (induction es) (simp_all add: count_type_Cons edge_usage_def)

lemma count_definition_call_usage:
  "count_type DEFINITION (map (call_usage ctx g) es) = 0"
  by (induction es) (simp_all add: count_type_Cons call_usage_def Let_def)

lemma count_definition_concat:
  "count_type DEFINITION (concat (map (\<lambda>f. map (edge_usage ctx IMPORT) (h f)) fs)) = 0"
  by (induction fs) (simp_all add: count_type_append count_definition_edge_usage)

lemma count_definition_node_usages:
  "count_type DEFINITION (node_usages ctx g node_id node) = 1"
  unfolding node_usages_def
  by (simp add: count_type_append count_type_Cons count_definition_edge_usage
        count_definition_call_usage count_definition_concat definition_usage_def)

lemma function_usages_build_file_functions_index:
  "function_usages (build_file_functions_index g idx) = function_usages idx"
  unfolding build_file_functions_index_def
  by (rule fold_preserves[where P = "\<lambda>i. function_usages i = function_usages idx"])
     (simp_all split: prod.splits)

lemma function_usages_build_call_indexes:
  "function_usages (build_call_indexes g idx) = function_usages idx"
  unfolding build_call_indexes_def
  by (rule fold_preserves[where P = "\<lambda>i. function_usages i = function_usages idx"])
     simp_all

lemma function_usages_build_export_import_indexes:
  "function_usages (build_export_import_indexes g idx) = function_usages idx"
  unfolding build_export_import_indexes_def
  by (rule fold_preserves[where P = "\<lambda>i. function_usages i = function_usages idx"])
     (simp_all split: prod.splits)

lemma build_usage_index_lists:
  assumes "\<And>k us. map_of (function_usages idx) k = Some us \<Longrightarrow>
             \<exists>i n. us = node_usages ctx g i n"
    and "map_of (function_usages (build_usage_index ctx g idx)) k = Some us"
  shows "\<exists>i n. us = node_usages ctx g i n"
proof -
  have "\<forall>k us. map_of (function_usages (build_usage_index ctx g idx)) k = Some us \<longrightarrow>
          (\<exists>i n. us = node_usages ctx g i n)"
    unfolding build_usage_index_def
  proof (rule fold_preserves[where P = "\<lambda>x. \<forall>k us. map_of (function_usages x) k = Some us \<longrightarrow>
          (\<exists>i n. us = node_usages ctx g i n)"])
    show "\<forall>k us. map_of (function_usages idx) k = Some us \<longrightarrow> (\<exists>i n. us = node_usages ctx g i n)"
      using assms(1) by blast
  next
    fix x :: "string \<times> GraphNode" and s
    assume s: "\<forall>k us. map_of (function_usages s) k = Some us \<longrightarrow>
          (\<exists>i n. us = node_usages ctx g i n)"
    obtain i n where x: "x = (i, n)" by (cases x)
    show "\<forall>k us. map_of (function_usages
             ((case x of (node_id, node) \<Rightarrow> \<lambda>idx.
                 if gn_type node = FUNCTION then
                   (let usages = node_usages ctx g node_id node in
                    idx\<lparr>function_usages :=
                      AList.update node_id usages
                        (AList.update (gn_name node) usages (function_usages idx))\<rparr>)
                 else idx) s)) k = Some us \<longrightarrow>
          (\<exists>i n. us = node_usages ctx g i n)"
      using s unfolding x by (auto simp: update_conv' Let_def split: if_splits)
  qed
  with assms(2) show ?thesis by blast
qed

lemma create_indexes_lists:
  assumes "map_of (function_usages (create_indexes ctx g)) k = Some us"
  shows "\<exists>i n. us = node_usages ctx g i n"
proof (rule build_usage_index_lists)
  show "map_of (function_usages (build_usage_index ctx g
          (build_call_indexes g (build_file_functions_index g empty_indexes)))) k = Some us"
    using assms
    by (simp add: create_indexes_def function_usages_build_export_import_indexes)
next
  fix k us
  assume "map_of (function_usages (build_call_indexes g
             (build_file_functions_index g empty_indexes))) k = Some us"
  then show "\<exists>i n. us = node_usages ctx g i n"
    by (simp add: function_usages_build_call_indexes
          function_usages_build_file_functions_index empty_indexes_def)
qed

lemma exported_functions_build_file_functions_index:
  "exported_functions (build_file_functions_index g idx) = exported_functions idx"
  unfolding build_file_functions_index_def
  by (rule fold_preserves[where P = "\<lambda>i. exported_functions i = exported_functions idx"])
     (simp_all split: prod.splits)

lemma exported_functions_build_call_indexes:
  "exported_functions (build_call_indexes g idx) = exported_functions idx"
  unfolding build_call_indexes_def
  by (rule fold_preserves[where P = "\<lambda>i. exported_functions i = exported_functions idx"])
     simp_all

lemma exported_functions_build_usage_index:
  "exported_functions (build_usage_index ctx g idx) = exported_functions idx"
  unfolding build_usage_index_def
  by (rule fold_preserves[where P = "\<lambda>i. exported_functions i = exported_functions idx"])
     (simp_all add: Let_def split: prod.splits)

lemma exported_fold_None:
  assumes "\<forall>(k, n) \<in> set xs. gn_type n = FUNCTION \<and> gn_name n = name \<longrightarrow> \<not> gn_is_exported n"
    and "map_of (exported_functions idx) name = None"
  shows "map_of (exported_functions
           (fold (\<lambda>(node_id, node) idx.
                    if gn_type node = FUNCTION \<and> gn_is_exported node then
                      idx\<lparr>exported_functions :=
                            AList.update (gn_name node) node_id (exported_functions idx)\<rparr>
                    else idx) xs idx)) name = None"
  using assms
proof (induction xs arbitrary: idx)
  case Nil
  then show ?case by simp
next
  case (Cons x xs)
  obtain k n where x: "x = (k, n)" by (cases x)
  show ?case
    unfolding fold_simps x
    by (rule Cons.IH) (use Cons.prems x in \<open>auto simp: update_conv'\<close>)
qed

lemma get_node_id_by_name_None:
  assumes "\<forall>(k, n) \<in> set (nodes g). gn_type n = FUNCTION \<and> gn_name n = name \<longrightarrow> \<not> gn_is_exported n"
  shows "get_node_id_by_name (new_analyzer ctx g) name = None"
proof -
  have "map_of (exported_functions (build_usage_index ctx g
            (build_call_indexes g (build_file_functions_index g empty_indexes)))) name = None"
    by (simp add: exported_functions_build_usage_index exported_functions_build_call_indexes
          exported_functions_build_file_functions_index empty_indexes_def)
  from exported_fold_None[OF assms this] show ?thesis
    by (simp add: get_node_id_by_name_def new_analyzer_def create_indexes_def
          build_export_import_indexes_def)
qed

lemma ur_node_id_categorize_usage [simp]:
  "ur_node_id (categorize_usage u r) = ur_node_id r"
  by (cases "ul_usage_type u") (simp_all add: categorize_usage_def Let_def)

lemma ur_node_id_fold_categorize_usage [simp]:
  "ur_node_id (fold categorize_usage us r) = ur_node_id r"
  by (induction us arbitrary: r) simp_all

section \<open>Risk score\<close>

lemma count_module_fields:
  "rs_critical_path_usages (count_module m s)
     = rs_critical_path_usages s + (if mu_criticality m = CRITICAL_PATH then mu_total_usages m else 0)"
  "rs_secondary_usages (count_module m s)
     = rs_secondary_usages s + (if mu_criticality m = SECONDARY then mu_total_usages m else 0)"
  "rs_tertiary_usages (count_module m s)
     = rs_tertiary_usages s + (if mu_criticality m = TERTIARY then mu_total_usages m else 0)"
  "rs_non_critical_usages (count_module m s)
     = rs_non_critical_usages s + (if mu_criticality m = NON_CRITICAL then mu_total_usages m else 0)"
  by (cases "mu_criticality m"; simp add: count_module_def Let_def)+

lemma tier_usages_Cons:
  "tier_usages t (m # ms) = (if mu_criticality m = t then mu_total_usages m else 0) + tier_usages t ms"
  by (simp add: tier_usages_def)

lemma fold_count_module:
  "rs_critical_path_usages (fold count_module ms s)
     = rs_critical_path_usages s + tier_usages CRITICAL_PATH ms
   \<and> rs_secondary_usages (fold count_module ms s)
     = rs_secondary_usages s + tier_usages SECONDARY ms
   \<and> rs_tertiary_usages (fold count_module ms s)
     = rs_tertiary_usages s + tier_usages TERTIARY ms
   \<and> rs_non_critical_usages (fold count_module ms s)
     = rs_non_critical_usages s + tier_usages NON_CRITICAL ms"
proof (induction ms arbitrary: s)
  case Nil
  show ?case by (simp add: tier_usages_def)
next
  case (Cons m ms)
  show ?case
    using Cons[of "count_module m s"]
    by (simp add: count_module_fields tier_usages_Cons)
qed

lemma tier_usages_nonneg: "0 \<le> tier_usages t ms"
  unfolding tier_usages_def by (induction ms) (simp_all add: mu_total_usages_def)

lemma calculate_risk_score_fields:
  "rs_critical_path_usages (calculate_risk_score ms) = tier_usages CRITICAL_PATH ms"
  "rs_secondary_usages (calculate_risk_score ms) = tier_usages SECONDARY ms"
  "rs_tertiary_usages (calculate_risk_score ms) = tier_usages TERTIARY ms"
  "rs_non_critical_usages (calculate_risk_score ms) = tier_usages NON_CRITICAL ms"
  using fold_count_module[of ms new_risk_score]
  by (simp_all add: calculate_risk_score_def calculate_def Let_def new_risk_score_def)

lemma calculate_total:
  "rs_total_score (calculate s)
     = rs_critical_path_usages s * 10 + rs_secondary_usages s * 5
       + rs_tertiary_usages s * 2 + rs_non_critical_usages s * 1"
  by (simp add: calculate_def Let_def)

lemma calculate_level:
  "rs_risk_level (calculate s)
     = (if rs_total_score (calculate s) \<le> 20 then LOW
        else if rs_total_score (calculate s) \<le> 50 then MEDIUM
        else if rs_total_score (calculate s) \<le> 100 then HIGH
        else CRITICAL)"
  by (simp add: calculate_def Let_def)

lemma calculate_usages [simp]:
  "rs_critical_path_usages (calculate s) = rs_critical_path_usages s"
  "rs_secondary_usages (calculate s) = rs_secondary_usages s"
  "rs_tertiary_usages (calculate s) = rs_tertiary_usages s"
  "rs_non_critical_usages (calculate s) = rs_non_critical_usages s"
  by (simp_all add: calculate_def Let_def)

lemma assess_business_impact_fields [simp]:
  "ir_modules (assess_business_impact r ms s) = ir_modules r"
  "ir_risk_score (assess_business_impact r ms s) = ir_risk_score r"
  by (simp_all add: assess_business_impact_def Let_def)

lemma assess_change_impact_Some:
  assumes "assess_change_impact ia function_name change_description = Some r"
  shows "ir_risk_score r = calculate_risk_score (ir_modules r)"
  using assms
  by (auto simp: assess_change_impact_def Let_def split: option.splits)

lemma determine_criticality_default:
  assumes "\<And>p c. (p, c) \<in> set MODULE_PATTERNS \<Longrightarrow>
             \<not> str_contains (lower file_path) p \<and> \<not> str_contains (lower file_name) p"
  shows "determine_criticality file_path file_name = SECONDARY"
proof -
  have "find (\<lambda>(pattern, criticality).
                str_contains (lower file_path) pattern \<or> str_contains (lower file_name) pattern)
          MODULE_PATTERNS = None"
    unfolding find_None_iff using assms by auto
  then show ?thesis by (simp add: determine_criticality_def Let_def)
qed

section \<open>Claims\<close>

text \<open>
  C5. After \<open>build_graph\<close>, for every \<open>CALLS\<close> edge with source \<open>A\<close> and target \<open>B\<close>
  the node stored under \<open>B\<close> exists and lists \<open>A\<close> in \<open>called_by\<close>; conversely, whenever
  \<open>A\<close> is in the \<open>called_by\<close> list of the node stored under \<open>B\<close>, the graph has a \<open>CALLS\<close>
  edge from \<open>A\<close> to \<open>B\<close>. The node stored under \<open>B\<close> has identifier \<open>B\<close>.
\<close>

theorem called_by_iff_calls_edge:
  "let g = graph (build_graph (new_builder st) parsed_files) in
     (\<forall>e \<in> set (edges g). ge_edge_type e = CALLS \<longrightarrow>
        (\<exists>n. get_node g (ge_target_id e) = Some n \<and> gn_id n = ge_target_id e
             \<and> ge_source_id e \<in> set (gn_called_by n)))
     \<and> (\<forall>B n A. get_node g B = Some n \<and> A \<in> set (gn_called_by n) \<longrightarrow>
          gn_id n = B \<and>
          (\<exists>e \<in> set (edges g). ge_edge_type e = CALLS \<and> ge_source_id e = A
                                \<and> ge_target_id e = B))"
proof -
  define b where "b = build_edges (new_builder st) parsed_files"
  define g where "g = graph (build_graph (new_builder st) parsed_files)"
  have inv: "builder_inv b"
    unfolding b_def by (rule builder_inv_build_edges[OF builder_inv_new])
  have g: "g = fold reverse_step (edges (graph b)) (graph b)"
    by (simp add: g_def b_def build_graph_build_edges build_reverse_relationships_def)
  have es: "edges g = edges (graph b)" by (simp add: g)
  have look: "get_node g k =
      map_option (fold (\<lambda>e. reverse_node_update e k) (edges (graph b))) (get_node (graph b) k)" for k
    by (simp add: g get_node_fold_reverse_step)
  have fwd: "\<exists>n. get_node g (ge_target_id e) = Some n \<and> gn_id n = ge_target_id e
             \<and> ge_source_id e \<in> set (gn_called_by n)"
    if e: "e \<in> set (edges g)" and c: "ge_edge_type e = CALLS" for e
  proof -
    from e inv obtain n0 where n0: "get_node (graph b) (ge_target_id e) = Some n0"
      unfolding builder_inv_def es by blast
    with inv have "gn_id n0 = ge_target_id e" unfolding builder_inv_def by blast
    moreover have "ge_source_id e \<in>
        set (gn_called_by (fold (\<lambda>e'. reverse_node_update e' (ge_target_id e)) (edges (graph b)) n0))"
      using e c unfolding called_by_fold_update es by blast
    ultimately show ?thesis by (simp add: look n0)
  qed
  have bwd: "gn_id n = B \<and> (\<exists>e \<in> set (edges g). ge_edge_type e = CALLS \<and> ge_source_id e = A
                                \<and> ge_target_id e = B)"
    if n: "get_node g B = Some n" and a: "A \<in> set (gn_called_by n)" for B n A
  proof -
    from n obtain n0 where n0: "get_node (graph b) B = Some n0"
      and nn: "n = fold (\<lambda>e. reverse_node_update e B) (edges (graph b)) n0"
      by (auto simp: look)
    from inv n0 have f: "gn_id n0 = B" "gn_called_by n0 = []"
      unfolding builder_inv_def by blast+
    from a have "A \<in> {ge_source_id e | e. e \<in> set (edges (graph b)) \<and> ge_edge_type e = CALLS \<and> ge_target_id e = B}"
      unfolding nn called_by_fold_update f by simp
    then show ?thesis using f by (auto simp: nn es)
  qed
  show ?thesis
    unfolding Let_def g_def[symmetric] using fwd bwd by blast
qed

theorem called_by_iff_calls_edge_witness:
  "calls_edge (function_call ''a'' ''/repo/calc.py'' 2 (Some ''b'')) ''calc:b'' ''calc:a''
     \<in> set (edges (graph (build_graph (new_builder ''json'') [example_calc])))
   \<and> (\<exists>n. get_node (graph (build_graph (new_builder ''json'') [example_calc])) ''calc:a'' = Some n
          \<and> gn_id n = ''calc:a'' \<and> ''calc:b'' \<in> set (gn_called_by n))"
proof -
  let ?g = "graph (build_graph (new_builder ''json'') [example_calc])"
  let ?e = "calls_edge (function_call ''a'' ''/repo/calc.py'' 2 (Some ''b'')) ''calc:b'' ''calc:a''"
  have e: "?e \<in> set (edges ?g)" by code_simp
  have t: "ge_edge_type ?e = CALLS" by (rule calls_edge_fields(3))
  have "\<forall>e \<in> set (edges ?g). ge_edge_type e = CALLS \<longrightarrow>
        (\<exists>n. get_node ?g (ge_target_id e) = Some n \<and> gn_id n = ge_target_id e
             \<and> ge_source_id e \<in> set (gn_called_by n))"
    using called_by_iff_calls_edge[of "''json''" "[example_calc]"]
    unfolding Let_def by (rule conjunct1)
  from bspec[OF this e] t
  have "\<exists>n. get_node ?g (ge_target_id ?e) = Some n \<and> gn_id n = ge_target_id ?e
             \<and> ge_source_id ?e \<in> set (gn_called_by n)"
    by (rule mp)
  then have "\<exists>n. get_node ?g ''calc:a'' = Some n \<and> gn_id n = ''calc:a''
             \<and> ''calc:b'' \<in> set (gn_called_by n)"
    unfolding calls_edge_fields .
  with e show ?thesis by (rule conjI)
qed

text \<open>
  C6. The claim fails for call sites whose calling function is no function node: the
  source identifier of a \<open>CALLS\<close> edge is built from the names and never looked up. For
  \<^verbatim>\<open>app.js\<close> the built graph holds the edge from \<^verbatim>\<open>app:x\<close> to \<^verbatim>\<open>app:foo\<close>
  although no node \<^verbatim>\<open>app:x\<close> exists.
\<close>

theorem call_edge_source_unresolved:
  "calls_edge (function_call ''foo'' ''/repo/app.js'' 2 (Some ''x'')) ''app:x'' ''app:foo''
     \<in> set (edges (graph (build_graph (new_builder ''json'') [example_app_js])))
   \<and> get_node (graph (build_graph (new_builder ''json'') [example_app_js])) ''app:x'' = None"
  by code_simp

text \<open>
  C9. \<open>calculate_failure_modes\<close> takes no graph; for every function name and change type
  it returns the same five failure modes with probabilities 0.01, 0.05, 2, 0.5 and 50
  percent, five mitigation strategies, and the success rate 100 minus the sum of the
  probabilities of the modes other than documentation sync, which is 97.44.
\<close>

theorem calculate_failure_modes_fixed:
  "map (\<lambda>fm. (fm_mode fm, fm_probability_percent fm))
       (ra_failure_modes (calculate_failure_modes function_name change_type))
     = [(MISSED_USAGE, 1 / 100), (INCONSISTENT_RENAME, 5 / 100), (TYPE_MISMATCH, 2),
        (TEST_FAILURE, 5 / 10), (DOCUMENTATION_SYNC, 50)]
   \<and> ra_failure_modes (calculate_failure_modes function_name change_type)
     = ra_failure_modes (calculate_failure_modes function_name' change_type')
   \<and> ra_mitigations (calculate_failure_modes function_name change_type) = generate_mitigations
   \<and> length generate_mitigations = 5
   \<and> ra_success_rate_percent (calculate_failure_modes function_name change_type)
     = 100 - sum_list (map fm_probability_percent
         (filter (\<lambda>fm. fm_mode fm \<noteq> DOCUMENTATION_SYNC)
            (ra_failure_modes (calculate_failure_modes function_name change_type))))
   \<and> ra_success_rate_percent (calculate_failure_modes function_name change_type) = 9744 / 100"
  by (simp add: calculate_failure_modes_def calculate_success_rate_def round2_def
        generate_mitigations_def analyze_missed_usage_def analyze_inconsistent_rename_def
        analyze_type_mismatch_def analyze_test_failure_def analyze_documentation_sync_def
        Let_def)

text \<open>
  C8. In the state \<^verbatim>\<open>__init__\<close> leaves (no build has run), each of
  \<open>find_usages\<close>, \<open>assess_change_impact\<close>, \<open>calculate_risk\<close> and
  \<open>get_complete_analysis\<close> raises the "Graph not built" error; none returns a value.
\<close>

theorem empty_state_queries_not_built:
  "find_usages (new_orchestrator path) function_name = Inl not_built
   \<and> orch_assess_change_impact (new_orchestrator path) function_name change_description
       = Inl not_built
   \<and> calculate_risk (new_orchestrator path) function_name change_type = Inl not_built
   \<and> get_complete_analysis (new_orchestrator path) function_name change_description
       = Inl not_built
   \<and> not_built = RuntimeError ''Graph not built. Call build_graph() first.''"
  by (simp add: find_usages_def orch_assess_change_impact_def calculate_risk_def
        get_complete_analysis_def new_orchestrator_def not_built_def)

text \<open>
  C7. For a name that is no key of the usage index, \<open>find_all_usages\<close> is absent and
  \<open>assess_change_impact\<close> is absent; both are values, nothing is raised.
\<close>

theorem unknown_name_absent:
  assumes "map_of (function_usages (an_indexes a)) function_name = None"
  shows "find_all_usages a function_name = None
       \<and> assess_change_impact \<lparr>ia_analyzer = a\<rparr> function_name change_description = None"
  using assms by (simp add: find_all_usages_def assess_change_impact_def)

theorem unknown_name_absent_witness:
  "map_of (function_usages (an_indexes example_analyzer)) ''nonexistent'' = None
   \<and> find_all_usages example_analyzer ''nonexistent'' = None
   \<and> assess_change_impact \<lparr>ia_analyzer = example_analyzer\<rparr> ''nonexistent'' ''_'' = None"
proof -
  have h: "map_of (function_usages (an_indexes example_analyzer)) ''nonexistent'' = None"
    by code_simp
  from unknown_name_absent[OF h, of "''_''"] h show ?thesis by simp
qed

text \<open>
  C1. The claim fails on the code: the patterns are probed in the order of the
  \<^verbatim>\<open>MODULE_PATTERNS\<close> literal, which lists the critical-path patterns first, so the
  module of \<^verbatim>\<open>test_checkout.py\<close> is classified \<open>CRITICAL_PATH\<close>.
\<close>

theorem test_checkout_classified_critical:
  "mu_criticality (create_module_usage ''test_checkout.py'' usages) = CRITICAL_PATH"
proof -
  have "determine_criticality ''test_checkout.py'' (path_stem ''test_checkout.py'') = CRITICAL_PATH"
    by code_simp
  then show ?thesis by (simp add: create_module_usage_def Let_def)
qed

text \<open>
  C3. For every report of \<open>assess_change_impact\<close>, each tier count of the risk score is the
  sum of the usage counts (the lengths of the usage lists) of the modules of that tier, the
  total score is critical-path count times 10 plus secondary count times 5 plus tertiary
  count times 2 plus non-critical count times 1, the score is not negative, and the level
  is Low up to 20, Medium from 21 to 50, High from 51 to 100 and Critical from 101.
\<close>

theorem risk_score_weighted_sum:
  assumes "assess_change_impact ia function_name change_description = Some r"
  shows "rs_critical_path_usages (ir_risk_score r) = tier_usages CRITICAL_PATH (ir_modules r)
       \<and> rs_secondary_usages (ir_risk_score r) = tier_usages SECONDARY (ir_modules r)
       \<and> rs_tertiary_usages (ir_risk_score r) = tier_usages TERTIARY (ir_modules r)
       \<and> rs_non_critical_usages (ir_risk_score r) = tier_usages NON_CRITICAL (ir_modules r)
       \<and> rs_total_score (ir_risk_score r)
           = rs_critical_path_usages (ir_risk_score r) * 10
             + rs_secondary_usages (ir_risk_score r) * 5
             + rs_tertiary_usages (ir_risk_score r) * 2
             + rs_non_critical_usages (ir_risk_score r) * 1
       \<and> 0 \<le> rs_total_score (ir_risk_score r)
       \<and> rs_risk_level (ir_risk_score r)
           = (if rs_total_score (ir_risk_score r) \<le> 20 then LOW
              else if rs_total_score (ir_risk_score r) \<le> 50 then MEDIUM
              else if rs_total_score (ir_risk_score r) \<le> 100 then HIGH
              else CRITICAL)"
proof -
  let ?ms = "ir_modules r"
  have s: "ir_risk_score r = calculate_risk_score ?ms"
    using assms by (rule assess_change_impact_Some)
  have tot: "rs_total_score (calculate_risk_score ?ms)
       = tier_usages CRITICAL_PATH ?ms * 10 + tier_usages SECONDARY ?ms * 5
         + tier_usages TERTIARY ?ms * 2 + tier_usages NON_CRITICAL ?ms * 1"
    using fold_count_module[of ?ms new_risk_score]
    by (simp add: calculate_risk_score_def calculate_total new_risk_score_def)
  have nn: "0 \<le> rs_total_score (calculate_risk_score ?ms)"
    unfolding tot
    using tier_usages_nonneg[of CRITICAL_PATH ?ms] tier_usages_nonneg[of SECONDARY ?ms]
      tier_usages_nonneg[of TERTIARY ?ms] tier_usages_nonneg[of NON_CRITICAL ?ms]
    by simp
  have lvl: "rs_risk_level (calculate_risk_score ?ms)
           = (if rs_total_score (calculate_risk_score ?ms) \<le> 20 then LOW
              else if rs_total_score (calculate_risk_score ?ms) \<le> 50 then MEDIUM
              else if rs_total_score (calculate_risk_score ?ms) \<le> 100 then HIGH
              else CRITICAL)"
    unfolding calculate_risk_score_def by (rule calculate_level)
  show ?thesis
    unfolding s using tot nn lvl by (simp add: calculate_risk_score_fields)
qed

theorem risk_score_weighted_sum_witness:
  "\<exists>r. assess_change_impact \<lparr>ia_analyzer = example_fmt_analyzer\<rparr> ''fmt'' ''rename'' = Some r
     \<and> rs_total_score (ir_risk_score r)
           = tier_usages CRITICAL_PATH (ir_modules r) * 10
             + tier_usages SECONDARY (ir_modules r) * 5
             + tier_usages TERTIARY (ir_modules r) * 2
             + tier_usages NON_CRITICAL (ir_modules r) * 1
     \<and> rs_total_score (ir_risk_score r) = 28
     \<and> rs_risk_level (ir_risk_score r) = MEDIUM"
proof -
  have v: "map_option (\<lambda>r. rs_total_score (ir_risk_score r))
             (assess_change_impact \<lparr>ia_analyzer = example_fmt_analyzer\<rparr> ''fmt'' ''rename'')
           = Some 28"
    by code_simp
  then obtain r where
    r: "assess_change_impact \<lparr>ia_analyzer = example_fmt_analyzer\<rparr> ''fmt'' ''rename'' = Some r"
    and t: "rs_total_score (ir_risk_score r) = 28"
    by (cases "assess_change_impact \<lparr>ia_analyzer = example_fmt_analyzer\<rparr> ''fmt'' ''rename''")
       auto
  from risk_score_weighted_sum[OF r] t r show ?thesis by auto
qed


text \<open>
  C4. For every report \<open>find_all_usages\<close> returns on an analyzer indexed from a graph, the
  definition is present and \<open>total_usages\<close> is one for the definition plus the lengths of
  the export, import, call and test lists.
\<close>

theorem total_usages_is_sum:
  assumes "find_all_usages (new_analyzer ctx g) function_name = Some r"
  shows "ur_definition r \<noteq> None
       \<and> ur_total_usages r
           = (if ur_definition r = None then 0 else 1)
             + int (length (ur_exports r)) + int (length (ur_imports r))
             + int (length (ur_calls r)) + int (length (ur_tests r))"
proof -
  from assms obtain us where
    us: "map_of (function_usages (create_indexes ctx g)) function_name = Some us"
    by (auto simp: find_all_usages_def new_analyzer_def split: option.splits)
  obtain node_id where
    r: "r = (fold categorize_usage us (empty_report function_name node_id))
              \<lparr>ur_total_usages := int (length us)\<rparr>"
    using assms us
    by (auto simp: find_all_usages_def new_analyzer_def Let_def split: if_splits)
  from create_indexes_lists[OF us] have d: "count_type DEFINITION us = 1"
    by (auto simp: count_definition_node_usages)
  let ?r0 = "empty_report function_name node_id"
  have e: "ur_exports ?r0 = []" "ur_imports ?r0 = []" "ur_calls ?r0 = []" "ur_tests ?r0 = []"
    "ur_definition ?r0 = None"
    by (simp_all add: empty_report_def)
  show ?thesis
    using fold_categorize_usage[of us ?r0] count_type_partition[of us] d
    unfolding r e by simp
qed

theorem total_usages_is_sum_witness:
  "\<exists>r. find_all_usages (new_analyzer no_context
           (graph (build_graph (new_builder ''json'') [example_calc]))) ''a'' = Some r
      \<and> ur_definition r \<noteq> None \<and> ur_total_usages r = 2
      \<and> length (ur_exports r) + length (ur_imports r) + length (ur_calls r)
          + length (ur_tests r) = 1"
proof -
  let ?a = "new_analyzer no_context (graph (build_graph (new_builder ''json'') [example_calc]))"
  have v: "map_option ur_total_usages (find_all_usages ?a ''a'') = Some 2"
    by code_simp
  then obtain r where r: "find_all_usages ?a ''a'' = Some r" and t: "ur_total_usages r = 2"
    by (cases "find_all_usages ?a ''a''") auto
  from total_usages_is_sum[OF r] t r show ?thesis
    by (auto split: if_splits)
qed


text \<open>
  C2, as stated, fails: with three definitions of \<^verbatim>\<open>f\<close>, two of them in files of
  stem \<^verbatim>\<open>calc\<close>, the node \<^verbatim>\<open>calc:f\<close> is the one of the later file, the name table
  maps \<^verbatim>\<open>f\<close> to the last definition, and the function counter is 3; nothing records
  a collision.
\<close>

theorem first_writer_wins_counterexample:
  "map_option gn_file_path
     (get_node (graph (build_graph (new_builder ''json'') example_dup_files)) ''calc:f'')
     = Some ''/repo/b/calc.py''
   \<and> map_option gn_line_number
     (get_node (graph (build_graph (new_builder ''json'') example_dup_files)) ''calc:f'')
     = Some 7
   \<and> map_of (function_map (build_graph (new_builder ''json'') example_dup_files)) ''f''
     = Some ''other:f''
   \<and> total_functions (graph (build_graph (new_builder ''json'') example_dup_files)) = 3"
  by code_simp

text \<open>
  C2, amended. After \<open>build_graph\<close> the name table maps every bare name to the identifier
  of the last definition registered under that name, the node stored under an identifier
  that some definition produces is the node of the last such definition (up to its
  relationship lists), and the function counter counts every definition: the last writer
  wins, and no collision is recorded.
\<close>

theorem last_writer_wins:
  "let defs = concat (map pf_functions parsed_files);
       b = build_graph (new_builder st) parsed_files
   in (\<forall>name. map_of (function_map b) name = map_option function_id (last_def fd_name name defs))
      \<and> (\<forall>i d. last_def function_id i defs = Some d \<longrightarrow>
            map_option node_core (get_node (graph b) i) = Some (function_node d))
      \<and> total_functions (graph b) = int (length defs)"
proof -
  define defs where "defs = concat (map pf_functions parsed_files)"
  define b1 where "b1 = fold create_file_node parsed_files (new_builder st)"
  define b2 where "b2 = fold create_function_node defs b1"
  define b where "b = build_graph (new_builder st) parsed_files"
  have sc: "same_core b2 b"
    using same_core_build_graph[of parsed_files "new_builder st"]
    by (simp add: b2_def b1_def b_def defs_def fold_create_function_nodes)
  have fm: "map_of (function_map b) name = map_option function_id (last_def fd_name name defs)"
    for name
  proof -
    have "map_of (function_map b2) name
        = (case last_def fd_name name defs of Some d \<Rightarrow> Some (function_id d)
           | None \<Rightarrow> map_of (function_map b1) name)"
      unfolding b2_def by (rule function_map_fold_create_function_node)
    moreover have "function_map b1 = []"
      unfolding b1_def using fold_create_file_node_new[of parsed_files st] by simp
    moreover have "function_map b = function_map b2" using sc by (simp add: same_core_def)
    ultimately show ?thesis by (cases "last_def fd_name name defs") simp_all
  qed
  have nd: "map_option node_core (get_node (graph b) i) = Some (function_node d)"
    if "last_def function_id i defs = Some d" for i d
  proof -
    have "get_node (graph b2) i = Some (function_node d)"
      unfolding b2_def get_node_fold_create_function_node using that by simp
    moreover have "map_option node_core (get_node (graph b) i)
        = map_option node_core (get_node (graph b2) i)"
      using sc by (simp add: same_core_def)
    ultimately show ?thesis by simp
  qed
  have tf: "total_functions (graph b) = int (length defs)"
  proof -
    have "total_functions (graph b2) = total_functions (graph b1) + int (length defs)"
      unfolding b2_def by (rule total_functions_fold_create_function_node)
    moreover have "total_functions (graph b1) = 0"
      unfolding b1_def using fold_create_file_node_new[of parsed_files st] by simp
    moreover have "total_functions (graph b) = total_functions (graph b2)"
      using sc by (simp add: same_core_def)
    ultimately show ?thesis by simp
  qed
  show ?thesis
    unfolding Let_def defs_def[symmetric] b_def[symmetric]
    using fm nd tf by blast
qed

theorem last_writer_wins_witness:
  "map_option node_core
     (get_node (graph (build_graph (new_builder ''json'') example_dup_files)) ''calc:f'')
     = Some (function_node (function_definition ''f'' ''/repo/b/calc.py'' 7 8 [] True))"
proof -
  have h: "last_def function_id ''calc:f'' (concat (map pf_functions example_dup_files))
         = Some (function_definition ''f'' ''/repo/b/calc.py'' 7 8 [] True)"
    by code_simp
  have "\<forall>i d. last_def function_id i (concat (map pf_functions example_dup_files)) = Some d \<longrightarrow>
            map_option node_core
              (get_node (graph (build_graph (new_builder ''json'') example_dup_files)) i)
            = Some (function_node d)"
    using last_writer_wins[of example_dup_files "''json''"]
    unfolding Let_def by blast
  with h show ?thesis by blast
qed


text \<open>
  C10, as stated, fails: the node \<^verbatim>\<open>a:helper\<close> is a function that is not exported,
  yet the report for its name, whose definition lies in \<^verbatim>\<open>a.py\<close>, carries the node
  identifier \<^verbatim>\<open>b:helper\<close> of an exported function of the same name, and the caller and
  callee lists for the name are those of \<^verbatim>\<open>b:helper\<close>.
\<close>

theorem unexported_node_id_counterexample:
  "map_option gn_is_exported
     (get_node (graph (build_graph (new_builder ''json'') example_helper_files)) ''a:helper'')
     = Some False
   \<and> map_option gn_name
     (get_node (graph (build_graph (new_builder ''json'') example_helper_files)) ''a:helper'')
     = Some ''helper''
   \<and> map_option ur_node_id (find_all_usages example_helper_analyzer ''helper'')
     = Some ''b:helper''
   \<and> map_option (map_option ul_file_path \<circ> ur_definition)
        (find_all_usages example_helper_analyzer ''helper'')
     = Some (Some ''/repo/a.py'')
   \<and> get_callers example_helper_analyzer ''helper'' = [''b:main'']
   \<and> get_calls example_helper_analyzer ''helper'' = [''b:util'']"
  by code_simp


text \<open>
  C10, amended. For every name under which no function node is exported, a report of
  \<open>find_all_usages\<close> has the empty node identifier, and \<open>get_callers\<close> and \<open>get_calls\<close>
  return the empty list.
\<close>

theorem unexported_name_unresolved:
  assumes "\<forall>(k, n) \<in> set (nodes g).
             gn_type n = FUNCTION \<and> gn_name n = function_name \<longrightarrow> \<not> gn_is_exported n"
  shows "(\<forall>r. find_all_usages (new_analyzer ctx g) function_name = Some r \<longrightarrow> ur_node_id r = [])
       \<and> get_callers (new_analyzer ctx g) function_name = []
       \<and> get_calls (new_analyzer ctx g) function_name = []"
proof -
  have n: "get_node_id_by_name (new_analyzer ctx g) function_name = None"
    using assms by (rule get_node_id_by_name_None)
  have "ur_node_id r = []" if "find_all_usages (new_analyzer ctx g) function_name = Some r" for r
    using that
    by (auto simp: find_all_usages_def n Let_def empty_report_def
             split: option.splits if_splits)
  then show ?thesis by (simp add: get_callers_def get_calls_def n)
qed

theorem unexported_name_unresolved_witness:
  "map_option ur_node_id (find_all_usages example_app_analyzer ''foo'') = Some []
   \<and> get_callers example_app_analyzer ''foo'' = []
   \<and> get_calls example_app_analyzer ''foo'' = []"
proof -
  let ?g = "graph (build_graph (new_builder ''json'') [example_app_js])"
  have h: "\<forall>(k, n) \<in> set (nodes ?g).
             gn_type n = FUNCTION \<and> gn_name n = ''foo'' \<longrightarrow> \<not> gn_is_exported n"
    by code_simp
  have s: "find_all_usages example_app_analyzer ''foo'' \<noteq> None"
    by code_simp
  from unexported_name_unresolved[OF h, of no_context] s show ?thesis
    unfolding example_app_analyzer_def by auto
qed

end
